(* ===== verification/Prelude.thy ===== *)
theory Prelude
  imports Complex_Main "HOL-Library.Monad_Syntax" "HOL-Library.Signed_Division" "HOL-Library.Multiset"
begin

text \<open>
  Shared vocabulary of the development. C++ \<open>float\<close> values are modelled as \<open>real\<close>
  (exact arithmetic; IEEE rounding is not modelled), \<open>int\<close> as HOL \<open>int\<close> (the
  overflow question is answered by the bound lemmas of the components), and a
  \<open>std::vector\<close> as a list. \<open>std::vector::operator[]\<close> has undefined behaviour out of
  range; the checked accessors \<open>vget\<close> and \<open>vmodify\<close> make that case the value
  \<open>None\<close>, so a model that returns \<open>Some\<close> never performed an out-of-range access.
  \<open>cround\<close> is \<open>std::round\<close> (half away from zero).
\<close>

named_theorems vec_simps "evaluation rules of the checked vector operations"

type_synonym float = real

definition in_range :: "'a list \<Rightarrow> int \<Rightarrow> bool" where
  "in_range xs i \<longleftrightarrow> 0 \<le> i \<and> i < int (length xs)"

definition vget :: "'a list \<Rightarrow> int \<Rightarrow> 'a option" where
  "vget xs i = (if in_range xs i then Some (xs ! nat i) else None)"

definition vmodify :: "('a \<Rightarrow> 'a) \<Rightarrow> 'a list \<Rightarrow> int \<Rightarrow> 'a list option" where
  "vmodify f xs i = (if in_range xs i then Some (xs[nat i := f (xs ! nat i)]) else None)"

definition vset :: "'a list \<Rightarrow> int \<Rightarrow> 'a \<Rightarrow> 'a list option" where
  "vset xs i v = vmodify (\<lambda>_. v) xs i"

definition cround :: "real \<Rightarrow> int" where
  "cround x = (if 0 \<le> x then \<lfloor>x + 1 / 2\<rfloor> else - \<lfloor>- x + 1 / 2\<rfloor>)"

subsection \<open>Checked access\<close>

lemma in_range_iff [simp]: "in_range xs i \<longleftrightarrow> 0 \<le> i \<and> nat i < length xs"
  by (auto simp: in_range_def)

lemma vget_in [vec_simps]: "0 \<le> i \<Longrightarrow> nat i < length xs \<Longrightarrow> vget xs i = Some (xs ! nat i)"
  by (simp add: vget_def)

lemma vmodify_in [vec_simps]:
  "0 \<le> i \<Longrightarrow> nat i < length xs \<Longrightarrow> vmodify f xs i = Some (xs[nat i := f (xs ! nat i)])"
  by (simp add: vmodify_def)

lemma vset_in [vec_simps]:
  "0 \<le> i \<Longrightarrow> nat i < length xs \<Longrightarrow> vset xs i v = Some (xs[nat i := v])"
  by (simp add: vset_def vmodify_def)

lemma vget_Some_iff: "vget xs i = Some v \<longleftrightarrow> 0 \<le> i \<and> nat i < length xs \<and> v = xs ! nat i"
  by (auto simp: vget_def)

lemma vget_None_iff: "vget xs i = None \<longleftrightarrow> \<not> (0 \<le> i \<and> nat i < length xs)"
  by (simp add: vget_def)

lemma vmodify_None_iff: "vmodify f xs i = None \<longleftrightarrow> \<not> (0 \<le> i \<and> nat i < length xs)"
  by (simp add: vmodify_def)

lemma vget_numeral [simp]:
  "vget xs (numeral k) = (if numeral k < length xs then Some (xs ! numeral k) else None)"
  "vget xs 0 = (if 0 < length xs then Some (xs ! 0) else None)"
  by (simp_all add: vget_def)

lemma vmodify_length: "vmodify f xs i = Some ys \<Longrightarrow> length ys = length xs"
  by (auto simp: vmodify_def split: if_splits)

lemma vset_length: "vset xs i v = Some ys \<Longrightarrow> length ys = length xs"
  by (simp add: vset_def vmodify_length)

subsection \<open>Bits\<close>

unbundle bit_operations_syntax

text \<open>
  ORing in a bit that is disjoint from a mask never changes what the mask reads: the
  reason an earlier failure (which sets the interpolation bit) cannot make a later
  standard level look like a surface level.
\<close>

lemma or_and_disjoint: "(b :: int) AND m = 0 \<Longrightarrow> (x OR b) AND m = x AND m"
  by (simp add: bit.conj_disj_distrib2)

lemma or_absorb_twice [simp]: "((x :: int) OR b) OR b = x OR b"
  by (simp add: or.assoc)

text \<open>Bits set by OR are kept by later ORs; a value carrying a mask that overlaps
  another mask overlaps it too; an OR-update at an index sets the bits there.\<close>

lemma and_mask_or: "(x::int) AND b = b \<Longrightarrow> (x OR c) AND b = b"
  by (auto simp: bit_eq_iff bit_and_iff bit_or_iff)

lemma and_overlap_nonzero: "(x::int) AND i = i \<Longrightarrow> i AND s \<noteq> 0 \<Longrightarrow> x AND s \<noteq> 0"
  by (auto simp: bit_eq_iff bit_and_iff)

lemma or_mask_and_mask: "((x::int) OR b) AND b = b"
  by (auto simp: bit_eq_iff bit_and_iff bit_or_iff)

lemma vmodify_or_sets:
  "vmodify (\<lambda>f. f OR (b::int)) xs i = Some ys \<Longrightarrow> 0 \<le> i \<and> nat i < length ys \<and> (ys ! nat i) AND b = b"
  by (auto simp: vmodify_def or_mask_and_mask split: if_splits)

lemma vmodify_or_keeps:
  "vmodify (\<lambda>f. f OR (b::int)) xs i = Some ys \<Longrightarrow> k < length xs \<Longrightarrow> (xs ! k) AND b = b \<Longrightarrow> (ys ! k) AND b = b"
  by (auto simp: vmodify_def nth_list_update and_mask_or split: if_splits)

subsection \<open>Rounding\<close>

text \<open>\<open>std::round\<close> as modelled rounds to the nearest integer, halves away from
  zero: the result is within 1/2 of its argument, symmetric about zero, and a half
  above a non-negative integer goes up.\<close>

lemma cround_half: "0 \<le> k \<Longrightarrow> cround (of_int k + 1 / 2) = k + 1"
proof -
  assume k: "0 \<le> k"
  have "of_int k + 1 / 2 + 1 / 2 = (of_int (k + 1) :: real)" by simp
  with k show ?thesis by (simp add: cround_def)
qed

lemma cround_nearest:
  "\<bar>of_int (cround x) - x\<bar> \<le> 1 / 2 \<and> cround (- x) = - cround x"
proof -
  have f1: "of_int \<lfloor>x + 1 / 2\<rfloor> \<le> x + 1 / 2" "x + 1 / 2 < of_int \<lfloor>x + 1 / 2\<rfloor> + 1"
    by (rule of_int_floor_le, rule real_of_int_floor_add_one_gt)
  have f2: "of_int \<lfloor>- x + 1 / 2\<rfloor> \<le> - x + 1 / 2" "- x + 1 / 2 < of_int \<lfloor>- x + 1 / 2\<rfloor> + 1"
    by (rule of_int_floor_le, rule real_of_int_floor_add_one_gt)
  have a: "\<bar>of_int (cround x) - x\<bar> \<le> 1 / 2"
  proof (cases "0 \<le> x")
    case True
    then have "cround x = \<lfloor>x + 1 / 2\<rfloor>" by (simp add: cround_def)
    then show ?thesis unfolding abs_le_iff using f1 by linarith
  next
    case False
    then have "cround x = - \<lfloor>- x + 1 / 2\<rfloor>" by (simp add: cround_def)
    then show ?thesis unfolding abs_le_iff using f2 by linarith
  qed
  have b: "cround (- x) = - cround x"
  proof (cases "x = 0")
    case False
    then show ?thesis by (auto simp: cround_def)
  qed (simp add: cround_def)
  from a b show ?thesis ..
qed
end
