(* ===== verification/StdLevels.thy ===== *)
theory StdLevels
  imports Prelude
begin

text \<open>
  The standard-level classifier (\<open>ProfileStandardLevels::calcStdLevels\<close>), which the
  interpolation check calls but whose source is not part of this repository. It is
  modelled as an interface: the record of what it leaves in the members of
  \<open>ProfileStandardLevels\<close>, the type of a classifier, and the output contract of the
  specification (section 3, ``Level classification'') as an executable predicate.
  Every theorem about the check is stated for an arbitrary classifier that meets the
  contract.
\<close>

record std_levels =
  NumStd :: int
  NumSig :: int
  StdLev :: "int list"
  SigAbove :: "int list"
  SigBelow :: "int list"
  IndStd :: "int list"
  LogP :: "real list"

text \<open>\<open>calcStdLevels(numLevelsToCheck, pressures, tObsFinal, tFlags)\<close>.\<close>

type_synonym std_levels_fn = "nat \<Rightarrow> real list \<Rightarrow> real list \<Rightarrow> int list \<Rightarrow> std_levels"

text \<open>A bracket index is the sentinel \<open>-1\<close> or a level of the profile.\<close>

definition bracket_ok :: "nat \<Rightarrow> int \<Rightarrow> bool" where
  "bracket_ok n b \<longleftrightarrow> b = -1 \<or> (0 \<le> b \<and> b < int n)"

definition std_level_ok :: "nat \<Rightarrow> std_levels \<Rightarrow> nat \<Rightarrow> bool" where
  "std_level_ok n sl j \<longleftrightarrow>
     j < length (StdLev sl) \<and> j < length (SigBelow sl) \<and> j < length (SigAbove sl) \<and>
     0 \<le> StdLev sl ! j \<and> StdLev sl ! j < int n \<and>
     bracket_ok n (SigBelow sl ! j) \<and> bracket_ok n (SigAbove sl ! j)"

definition std_levels_ok :: "nat \<Rightarrow> std_levels \<Rightarrow> bool" where
  "std_levels_ok n sl \<longleftrightarrow>
     0 \<le> NumStd sl \<and> n \<le> length (LogP sl) \<and>
     list_all (std_level_ok n sl) [0..<nat (NumStd sl)]"

lemma std_levels_okD:
  assumes "std_levels_ok n sl" and "0 \<le> j" and "j < NumStd sl"
  shows "std_level_ok n sl (nat j)" and "n \<le> length (LogP sl)"
  using assms by (auto simp: std_levels_ok_def list_all_iff)

lemma std_levels_ok_StdLev:
  assumes "std_levels_ok n sl"
  shows "nat (NumStd sl) \<le> length (StdLev sl)"
    and "list_all (\<lambda>s. 0 \<le> s \<and> s < int n) (take (nat (NumStd sl)) (StdLev sl))"
proof -
  have ok: "std_level_ok n sl j" if "j < nat (NumStd sl)" for j
    using std_levels_okD(1) [OF assms, of "int j"] that by simp
  show "nat (NumStd sl) \<le> length (StdLev sl)"
  proof (cases "NumStd sl \<le> 0")
    case False
    then have "nat (NumStd sl) - 1 < nat (NumStd sl)" by simp
    from ok [OF this] False show ?thesis by (simp add: std_level_ok_def) linarith
  qed simp
  show "list_all (\<lambda>s. 0 \<le> s \<and> s < int n) (take (nat (NumStd sl)) (StdLev sl))"
    using ok by (auto simp: list_all_length std_level_ok_def)
qed

end
