(* ===== verification/BigGap.thy ===== *)
theory BigGap
  imports Prelude
begin

text \<open>
  The gap-threshold lookup of \<open>ProfileCheckInterpolation::runCheck\<close>
  (src/unnamed/part_000, lines 78--86): the table \<open>StandardLevels_\<close> (hPa) is scanned
  from index 0; the first entry at or below the level's pressure rounded to whole hPa
  selects \<open>BigGaps_[i] * 100\<close> (hPa to Pa), and no match leaves
  \<open>ICheck_BigGapInit\<close>. Reading \<open>BigGaps_[i]\<close> past its end is undefined
  behaviour, the value \<open>None\<close> here. The scan walks both tables in step; the rest of
  \<open>BigGaps_\<close> at position \<open>i\<close> is \<open>drop i BigGaps_\<close>.
\<close>

fun big_gap_scan :: "real \<Rightarrow> real list \<Rightarrow> real list \<Rightarrow> int \<Rightarrow> real option" where
  "big_gap_scan init [] gaps ip = Some init"
| "big_gap_scan init (s # ss) gaps ip =
     (if s \<le> of_int ip then (case gaps of [] \<Rightarrow> None | g # _ \<Rightarrow> Some (g * 100))
      else big_gap_scan init ss (tl gaps) ip)"

text \<open>The position at which the scan stops: the number of bands above the pressure.\<close>

definition band_index :: "real list \<Rightarrow> int \<Rightarrow> nat" where
  "band_index ss ip = length (takeWhile (\<lambda>s. \<not> s \<le> of_int ip) ss)"

text \<open>Reference lookup: the first (band, gap) pair whose band is at or below the pressure.\<close>

definition big_gap_ref :: "real \<Rightarrow> (real \<times> real) list \<Rightarrow> int \<Rightarrow> real" where
  "big_gap_ref init tbl ip =
     (case find (\<lambda>(s, g). s \<le> of_int ip) tbl of None \<Rightarrow> init | Some (s, g) \<Rightarrow> g * 100)"

subsection \<open>Where the scan stops\<close>

text \<open>
  The scan's value is read at \<open>band_index\<close>: the initial gap when every band is above
  the pressure, the band's gap when \<open>BigGaps_\<close> reaches that far, and undefined
  behaviour (\<open>None\<close>) when it does not.
\<close>

lemma big_gap_scan_band:
  "big_gap_scan init ss gs ip =
     (if band_index ss ip < length ss then
        (if band_index ss ip < length gs then Some (gs ! band_index ss ip * 100) else None)
      else Some init)"
proof (induction ss arbitrary: gs)
  case Nil
  then show ?case by (simp add: band_index_def)
next
  case (Cons s ss)
  then show ?case
    by (cases gs) (auto simp: band_index_def)
qed

lemma band_index_le: "band_index ss ip \<le> length ss"
  by (simp add: band_index_def length_takeWhile_le)

lemma band_index_hit:
  "band_index ss ip < length ss \<Longrightarrow> ss ! band_index ss ip \<le> of_int ip"
  using nth_length_takeWhile [of "\<lambda>s. \<not> s \<le> of_int ip" ss]
  by (simp add: band_index_def)

lemma band_index_before:
  "k < band_index ss ip \<Longrightarrow> of_int ip < ss ! k"
  using nth_mem [of k "takeWhile (\<lambda>s. \<not> s \<le> of_int ip) ss"] set_takeWhileD
  by (fastforce simp: band_index_def takeWhile_nth)

lemma band_index_none:
  "band_index ss ip = length ss \<longleftrightarrow> (\<forall>s\<in>set ss. of_int ip < s)"
  by (induction ss) (auto simp: band_index_def)

lemma band_index_greatest:
  assumes sorted: "sorted_wrt (>) ss" and hit: "band_index ss ip < length ss"
  shows "ss ! band_index ss ip = Max {s \<in> set ss. s \<le> of_int ip}"
proof (rule Max_eqI [symmetric])
  let ?i = "band_index ss ip"
  show "finite {s \<in> set ss. s \<le> of_int ip}" by simp
  show "ss ! ?i \<in> {s \<in> set ss. s \<le> of_int ip}"
    using hit band_index_hit by auto
  fix y assume "y \<in> {s \<in> set ss. s \<le> of_int ip}"
  then obtain k where k: "k < length ss" "y = ss ! k" and le: "y \<le> of_int ip"
    by (auto simp: in_set_conv_nth)
  have "\<not> k < ?i" using band_index_before [of k ss ip] k le by auto
  then consider "k = ?i" | "?i < k" by linarith
  then show "y \<le> ss ! ?i"
  proof cases
    case 1 with k show ?thesis by simp
  next
    case 2 with k sorted show ?thesis by (auto dest: sorted_wrt_nth_less)
  qed
qed

subsection \<open>Properties of the lookup\<close>

lemma big_gap_scan_eq_ref:
  "length ss \<le> length gs \<Longrightarrow> big_gap_scan init ss gs ip = Some (big_gap_ref init (zip ss gs) ip)"
proof (induction ss arbitrary: gs)
  case Nil
  then show ?case by (simp add: big_gap_ref_def)
next
  case (Cons s ss)
  then obtain g gs' where "gs = g # gs'" by (cases gs) auto
  with Cons show ?case by (simp add: big_gap_ref_def)
qed

text \<open>C17. With a gap for every band, the scan computes the reference lookup: the gap of
  the first (band, gap) pair whose band is at or below the rounded pressure, else the
  initial gap; it never reads out of range.\<close>

theorem big_gap_scan_refines:
  "length ss \<le> length gs \<Longrightarrow> big_gap_scan init ss gs ip = Some (big_gap_ref init (zip ss gs) ip)"
  by (rule big_gap_scan_eq_ref)

text \<open>C20. The lookup fails (reads \<open>BigGaps_\<close> out of range) exactly when the matching
  band lies beyond the end of \<open>BigGaps_\<close>.\<close>

theorem big_gap_scan_None_iff:
  "big_gap_scan init ss gs ip = None \<longleftrightarrow>
     band_index ss ip < length ss \<and> length gs \<le> band_index ss ip"
  by (simp add: big_gap_scan_band)

text \<open>C18. For a table of strictly decreasing bands with a gap for each, the scan selects
  the gap of the greatest band not above the rounded pressure.\<close>

theorem big_gap_scan_greatest_band:
  assumes "sorted_wrt (>) ss" and "length ss \<le> length gs" and "\<exists>s\<in>set ss. s \<le> of_int ip"
  shows "\<exists>i<length ss. big_gap_scan init ss gs ip = Some (gs ! i * 100) \<and>
           ss ! i = Max {s \<in> set ss. s \<le> of_int ip}"
proof -
  let ?i = "band_index ss ip"
  have "?i \<noteq> length ss" using assms(3) band_index_none [of ss ip] by auto
  then have hit: "?i < length ss" using band_index_le [of ss ip] by linarith
  with assms(2) have "big_gap_scan init ss gs ip = Some (gs ! ?i * 100)"
    by (simp add: big_gap_scan_band)
  with hit band_index_greatest [OF assms(1) hit] show ?thesis by blast
qed



end
