(* ===== verification/InterpLevel.thy ===== *)
theory InterpLevel
  imports Prelude StdLevels BigGap
begin

text \<open>
  The decision loop of \<open>ProfileCheckInterpolation::runCheck\<close>
  (src/unnamed/part_000, lines 67--139). \<open>check_level\<close> is one iteration of the
  \<open>for (jlevstd ...)\<close> loop, written read by read in the option monad so that every
  \<open>operator[]\<close> of the source is a checked access; \<open>interp_for\<close> is the loop with
  its counter, \<open>interp_loop\<close> the same loop over the list of standard-level indices. The loop state \<open>interp_state\<close> holds the vectors the loop
  writes: the data handler's \<open>tFlags\<close> and counters (by reference in the source), the
  members \<open>LevErrors_\<close> and \<open>tInterp_\<close>, and the local \<open>NumErrors\<close>.

  \<open>level_outcome\<close> is the abstract decision of the specification (section 4.3, steps
  1--7) for one standard level, over plain list indexing, and \<open>apply_outcome\<close> its
  effect (step 8); the refinement lemmas show that the loop computes them.
\<close>

record interp_options =
  ICheck_BigGapInit :: real
  ICheck_TolRelaxPThresh :: real
  ICheck_TolRelax :: real
  ICheck_TInterpTol :: real
  StandardLevels :: "real list"
  BigGaps :: "real list"

record flag_bits =
  SurfaceLevelFlag :: int
  InterpolationFlag :: int

record interp_state =
  tFlags :: "int list"
  NumAnyErrors :: "int list"
  NumInterpErrors :: "int list"
  LevErrors :: "int list"
  tInterp :: "real list"
  NumErrors :: int

text \<open>Equation 3.3a/b: linear interpolation in log-pressure.\<close>

definition log_interp :: "real \<Rightarrow> real \<Rightarrow> real \<Rightarrow> real \<Rightarrow> real \<Rightarrow> real" where
  "log_interp lpB lpA tB tA lp = tB + (tA - tB) * ((lp - lpB) / (lpA - lpB))"

text \<open>Lines 107--118: a failed test counts the error and marks the three levels.\<close>

definition record_failure ::
  "flag_bits \<Rightarrow> int \<Rightarrow> int \<Rightarrow> int \<Rightarrow> real list \<Rightarrow> interp_state \<Rightarrow> interp_state option" where
  "record_failure fb jlev SigB SigA tInterp' st = do {
     any \<leftarrow> vmodify (\<lambda>c. c + 1) (NumAnyErrors st) 0;
     ie \<leftarrow> vmodify (\<lambda>c. c + 1) (NumInterpErrors st) 0;
     f1 \<leftarrow> vmodify (\<lambda>f. f OR InterpolationFlag fb) (tFlags st) jlev;
     f2 \<leftarrow> vmodify (\<lambda>f. f OR InterpolationFlag fb) f1 SigB;
     f3 \<leftarrow> vmodify (\<lambda>f. f OR InterpolationFlag fb) f2 SigA;
     e1 \<leftarrow> vmodify (\<lambda>c. c + 1) (LevErrors st) jlev;
     e2 \<leftarrow> vmodify (\<lambda>c. c + 1) e1 SigB;
     e3 \<leftarrow> vmodify (\<lambda>c. c + 1) e2 SigA;
     Some (st\<lparr>tFlags := f3, NumAnyErrors := any, NumInterpErrors := ie, LevErrors := e3,
              tInterp := tInterp', NumErrors := NumErrors st + 1\<rparr>)
   }"

text \<open>Lines 96--106: interpolate (eqn 3.3a/b), store \<open>tInterp_[jlev]\<close> and test it
  against the (relaxed) tolerance.\<close>

definition interp_test ::
  "interp_options \<Rightarrow> flag_bits \<Rightarrow> std_levels \<Rightarrow> real list \<Rightarrow> int \<Rightarrow> int \<Rightarrow> int \<Rightarrow>
   real \<Rightarrow> real \<Rightarrow> real \<Rightarrow> interp_state \<Rightarrow> interp_state option" where
  "interp_test opts fb sl tObsFinal jlev SigB SigA PStd lB lA st = do {
     lS \<leftarrow> vget (LogP sl) jlev;
     let Ratio = (lS - lB) / (lA - lB);
     tB \<leftarrow> vget tObsFinal SigB;
     tA \<leftarrow> vget tObsFinal SigA;
     tInterp' \<leftarrow> vset (tInterp st) jlev (tB + (tA - tB) * Ratio);
     let TolRelax = (if PStd < ICheck_TolRelaxPThresh opts then ICheck_TolRelax opts else 1);
     tS \<leftarrow> vget tObsFinal jlev;
     ti \<leftarrow> vget tInterp' jlev;
     if \<bar>tS - ti\<bar> > ICheck_TInterpTol opts * TolRelax
     then record_failure fb jlev SigB SigA tInterp' st
     else Some (st\<lparr>tInterp := tInterp'\<rparr>)
   }"

text \<open>Lines 70--94: one iteration of the loop, with its guards in the source's order.\<close>

definition check_level ::
  "interp_options \<Rightarrow> flag_bits \<Rightarrow> std_levels \<Rightarrow> real list \<Rightarrow> real list \<Rightarrow> int \<Rightarrow>
   interp_state \<Rightarrow> interp_state option" where
  "check_level opts fb sl pressures tObsFinal jlevstd st = do {
     jlev \<leftarrow> vget (StdLev sl) jlevstd;
     fl \<leftarrow> vget (tFlags st) jlev;
     if fl AND SurfaceLevelFlag fb \<noteq> 0 then Some st else do {
     SigB \<leftarrow> vget (SigBelow sl) jlevstd;
     SigA \<leftarrow> vget (SigAbove sl) jlevstd;
     PStd \<leftarrow> vget pressures jlev;
     let IPStd = cround (PStd * 0.01);
     BigGap \<leftarrow> big_gap_scan (ICheck_BigGapInit opts) (StandardLevels opts) (BigGaps opts) IPStd;
     if NumSig sl < max 3 (NumStd sl sdiv 2) then Some st
     else if SigB = -1 \<or> SigA = -1 then Some st
     else do {
     pB \<leftarrow> vget pressures SigB;
     if pB - PStd > BigGap then Some st else do {
     pA \<leftarrow> vget pressures SigA;
     if PStd - pA > BigGap then Some st else do {
     lB \<leftarrow> vget (LogP sl) SigB;
     lA \<leftarrow> vget (LogP sl) SigA;
     if lB = lA then Some st
     else interp_test opts fb sl tObsFinal jlev SigB SigA PStd lB lA st }}}}}"

fun interp_loop ::
  "interp_options \<Rightarrow> flag_bits \<Rightarrow> std_levels \<Rightarrow> real list \<Rightarrow> real list \<Rightarrow> int list \<Rightarrow>
   interp_state \<Rightarrow> interp_state option" where
  "interp_loop opts fb sl p t [] st = Some st"
| "interp_loop opts fb sl p t (j # js) st =
     (case check_level opts fb sl p t j st of
        None \<Rightarrow> None
      | Some st' \<Rightarrow> interp_loop opts fb sl p t js st')"

text \<open>The loop as written, \<open>for (int jlevstd = 0; jlevstd < NumStd_; ++jlevstd)\<close>
  (lines 69--139): an \<open>int\<close> counter that grows to \<open>NumStd_\<close>, so the measure
  \<open>NumStd_ - jlevstd\<close> decreases with every iteration; an iteration that reads out of
  range ends the run with \<open>None\<close>. The counter cannot overflow: it is incremented only
  while it is below \<open>NumStd_\<close>, itself an \<open>int\<close>.\<close>

function interp_for ::
  "interp_options \<Rightarrow> flag_bits \<Rightarrow> std_levels \<Rightarrow> real list \<Rightarrow> real list \<Rightarrow> int \<Rightarrow>
   interp_state \<Rightarrow> interp_state option" where
  "interp_for opts fb sl p t jlevstd st =
     (if jlevstd < NumStd sl then
        (case check_level opts fb sl p t jlevstd st of
           None \<Rightarrow> None
         | Some st' \<Rightarrow> interp_for opts fb sl p t (jlevstd + 1) st')
      else Some st)"
  by pat_completeness auto
termination
  by (relation "measure (\<lambda>(opts, fb, sl, p, t, j, st). nat (NumStd sl - j))") auto

declare interp_for.simps [simp del]

subsection \<open>The abstract decision\<close>

datatype level_outcome = Skipped | Checked real bool

definition level_outcome ::
  "interp_options \<Rightarrow> flag_bits \<Rightarrow> std_levels \<Rightarrow> real list \<Rightarrow> real list \<Rightarrow> int list \<Rightarrow> int \<Rightarrow>
   level_outcome" where
  "level_outcome opts fb sl p t fl j =
     (let jlev = nat (StdLev sl ! nat j); B = SigBelow sl ! nat j; A = SigAbove sl ! nat j;
          PStd = p ! jlev;
          gap = big_gap_ref (ICheck_BigGapInit opts) (zip (StandardLevels opts) (BigGaps opts))
                  (cround (PStd * 0.01))
      in if fl ! jlev AND SurfaceLevelFlag fb \<noteq> 0 then Skipped
         else if NumSig sl < max 3 (NumStd sl sdiv 2) then Skipped
         else if B = -1 \<or> A = -1 then Skipped
         else if p ! nat B - PStd > gap \<or> PStd - p ! nat A > gap
                 \<or> LogP sl ! nat B = LogP sl ! nat A then Skipped
         else
           let v = log_interp (LogP sl ! nat B) (LogP sl ! nat A) (t ! nat B) (t ! nat A) (LogP sl ! jlev);
               tol = ICheck_TInterpTol opts *
                       (if PStd < ICheck_TolRelaxPThresh opts then ICheck_TolRelax opts else 1)
           in Checked v (tol < \<bar>t ! jlev - v\<bar>))"

definition bump :: "int list \<Rightarrow> nat \<Rightarrow> int list" where
  "bump xs i = xs[i := xs ! i + 1]"

definition mark :: "int \<Rightarrow> int list \<Rightarrow> nat \<Rightarrow> int list" where
  "mark b xs i = xs[i := xs ! i OR b]"

text \<open>The levels a standard level's test involves: itself, its lower and upper bracket.\<close>

definition triple :: "std_levels \<Rightarrow> int \<Rightarrow> nat list" where
  "triple sl j = [nat (StdLev sl ! nat j), nat (SigBelow sl ! nat j), nat (SigAbove sl ! nat j)]"

definition apply_outcome :: "flag_bits \<Rightarrow> std_levels \<Rightarrow> int \<Rightarrow> level_outcome \<Rightarrow> interp_state \<Rightarrow> interp_state" where
  "apply_outcome fb sl j oc st =
     (case oc of
        Skipped \<Rightarrow> st
      | Checked v failed \<Rightarrow>
          let st' = st\<lparr>tInterp := (tInterp st)[nat (StdLev sl ! nat j) := v]\<rparr>
          in if \<not> failed then st'
             else st'\<lparr>NumAnyErrors := bump (NumAnyErrors st) 0,
                      NumInterpErrors := bump (NumInterpErrors st) 0,
                      tFlags := fold (\<lambda>i xs. mark (InterpolationFlag fb) xs i) (triple sl j) (tFlags st),
                      LevErrors := fold (\<lambda>i xs. bump xs i) (triple sl j) (LevErrors st),
                      NumErrors := NumErrors st + 1\<rparr>)"

definition spec_step ::
  "interp_options \<Rightarrow> flag_bits \<Rightarrow> std_levels \<Rightarrow> real list \<Rightarrow> real list \<Rightarrow> int \<Rightarrow>
   interp_state \<Rightarrow> interp_state" where
  "spec_step opts fb sl p t j st = apply_outcome fb sl j (level_outcome opts fb sl p t (tFlags st) j) st"

text \<open>What a sequence of abstract decisions amounts to: the failing standard levels, the
  levels their tests involve, and the interpolated values in the order they are stored.\<close>

fun is_failure :: "level_outcome \<Rightarrow> bool" where
  "is_failure Skipped = False"
| "is_failure (Checked v f) = f"

definition participants :: "std_levels \<Rightarrow> int list \<Rightarrow> nat list" where
  "participants sl js = concat (map (triple sl) js)"

definition interp_writes :: "std_levels \<Rightarrow> (int \<Rightarrow> level_outcome) \<Rightarrow> int list \<Rightarrow> (nat \<times> real) list" where
  "interp_writes sl oc js =
     concat (map (\<lambda>j. case oc j of Skipped \<Rightarrow> [] | Checked v f \<Rightarrow> [(nat (StdLev sl ! nat j), v)]) js)"

definition run_outcomes ::
  "flag_bits \<Rightarrow> std_levels \<Rightarrow> (int \<Rightarrow> level_outcome) \<Rightarrow> int list \<Rightarrow> interp_state \<Rightarrow> interp_state" where
  "run_outcomes fb sl oc js st = fold (\<lambda>j. apply_outcome fb sl j (oc j)) js st"

subsection \<open>Refinement of one iteration\<close>

text \<open>
  The sizes under which no access of an iteration is out of range: the input vectors
  and \<open>LogP_\<close> reach every level below \<open>numLevelsToCheck\<close>, \<open>BigGaps_\<close> has a gap
  for every band, and the written vectors reach every level and hold a counter at 0.
\<close>

definition inputs_ok :: "nat \<Rightarrow> interp_options \<Rightarrow> std_levels \<Rightarrow> real list \<Rightarrow> real list \<Rightarrow> bool" where
  "inputs_ok n opts sl p t \<longleftrightarrow>
     n \<le> length p \<and> n \<le> length t \<and> n \<le> length (LogP sl) \<and>
     length (StandardLevels opts) \<le> length (BigGaps opts)"

definition dims_ok :: "nat \<Rightarrow> interp_state \<Rightarrow> bool" where
  "dims_ok n st \<longleftrightarrow>
     n \<le> length (tFlags st) \<and> n \<le> length (LevErrors st) \<and> n \<le> length (tInterp st) \<and>
     0 < length (NumAnyErrors st) \<and> 0 < length (NumInterpErrors st)"

text \<open>The lengths of the state's vectors, which no iteration changes.\<close>

definition state_dims :: "interp_state \<Rightarrow> nat list" where
  "state_dims st = [length (tFlags st), length (NumAnyErrors st), length (NumInterpErrors st),
                    length (LevErrors st), length (tInterp st)]"

lemma level_in_range:
  assumes "inputs_ok n opts sl p t" "dims_ok n st" "0 \<le> i" "i < int n"
  shows "nat i < length p" "nat i < length t" "nat i < length (LogP sl)"
    "nat i < length (tFlags st)" "nat i < length (LevErrors st)" "nat i < length (tInterp st)"
  using assms by (auto simp: inputs_ok_def dims_ok_def)

lemma level_reads:
  assumes "inputs_ok n opts sl p t" "dims_ok n st" "0 \<le> i" "i < int n"
  shows "vget p i = Some (p ! nat i)" "vget t i = Some (t ! nat i)"
    "vget (LogP sl) i = Some (LogP sl ! nat i)" "vget (tFlags st) i = Some (tFlags st ! nat i)"
  using level_in_range [OF assms] assms(3) by (simp_all add: vget_def)

lemma record_failure_Some:
  assumes "dims_ok n st" and "\<forall>i\<in>set [jl, B, A]. 0 \<le> i \<and> i < int n"
  shows "record_failure fb jl B A ti st =
    Some (st\<lparr>NumAnyErrors := bump (NumAnyErrors st) 0, NumInterpErrors := bump (NumInterpErrors st) 0,
             tFlags := fold (\<lambda>i xs. mark (InterpolationFlag fb) xs i) [nat jl, nat B, nat A] (tFlags st),
             LevErrors := fold (\<lambda>i xs. bump xs i) [nat jl, nat B, nat A] (LevErrors st),
             tInterp := ti, NumErrors := NumErrors st + 1\<rparr>)"
proof -
  from assms have "nat jl < length (tFlags st)" "nat B < length (tFlags st)" "nat A < length (tFlags st)"
    "nat jl < length (LevErrors st)" "nat B < length (LevErrors st)" "nat A < length (LevErrors st)"
    "0 < length (NumAnyErrors st)" "0 < length (NumInterpErrors st)"
    by (auto simp: dims_ok_def)
  with assms(2) show ?thesis
    by (simp add: record_failure_def vec_simps mark_def bump_def)
qed

lemma interp_test_Some:
  assumes inp: "inputs_ok n opts sl t' t" and dims: "dims_ok n st"
    and rng: "\<forall>i\<in>set [jl, B, A]. 0 \<le> i \<and> i < int n"
  shows "interp_test opts fb sl t jl B A P (LogP sl ! nat B) (LogP sl ! nat A) st =
    (let v = log_interp (LogP sl ! nat B) (LogP sl ! nat A) (t ! nat B) (t ! nat A) (LogP sl ! nat jl);
         tol = ICheck_TInterpTol opts * (if P < ICheck_TolRelaxPThresh opts then ICheck_TolRelax opts else 1)
     in if tol < \<bar>t ! nat jl - v\<bar> then record_failure fb jl B A ((tInterp st)[nat jl := v]) st
        else Some (st\<lparr>tInterp := (tInterp st)[nat jl := v]\<rparr>))"
proof -
  from rng have r: "0 \<le> jl" "jl < int n" "0 \<le> B" "B < int n" "0 \<le> A" "A < int n" by auto
  note reads = level_reads [OF inp dims r(1,2)] level_reads [OF inp dims r(3,4)] level_reads [OF inp dims r(5,6)]
  have ti: "nat jl < length (tInterp st)" using level_in_range [OF inp dims r(1,2)] by simp
  show ?thesis using reads ti r(1)
    by (simp add: interp_test_def vec_simps log_interp_def Let_def)
qed
lemma check_level_spec:
  assumes inp: "inputs_ok n opts sl p t" and dims: "dims_ok n st"
    and lev: "std_level_ok n sl (nat j)" and j0: "0 \<le> j"
  shows "check_level opts fb sl p t j st = Some (spec_step opts fb sl p t j st)"
proof -
  let ?jl = "StdLev sl ! nat j" and ?B = "SigBelow sl ! nat j" and ?A = "SigAbove sl ! nat j"
  from lev j0 have get: "vget (StdLev sl) j = Some ?jl" "vget (SigBelow sl) j = Some ?B"
      "vget (SigAbove sl) j = Some ?A"
    by (auto simp: std_level_ok_def vget_def)
  from lev have jl: "0 \<le> ?jl" "?jl < int n" and br: "bracket_ok n ?B" "bracket_ok n ?A"
    by (auto simp: std_level_ok_def)
  note rj = level_reads [OF inp dims jl]
  from inp have gap: "\<And>ip. big_gap_scan (ICheck_BigGapInit opts) (StandardLevels opts) (BigGaps opts) ip =
      Some (big_gap_ref (ICheck_BigGapInit opts) (zip (StandardLevels opts) (BigGaps opts)) ip)"
    by (simp add: inputs_ok_def big_gap_scan_eq_ref)
  let ?surf = "tFlags st ! nat ?jl AND SurfaceLevelFlag fb \<noteq> 0"
  let ?sparse = "NumSig sl < max 3 (NumStd sl sdiv 2)"
  show ?thesis
  proof (cases "?surf \<or> ?sparse \<or> ?B = -1 \<or> ?A = -1")
    case True
    then show ?thesis using get rj gap
      by (auto simp: check_level_def spec_step_def level_outcome_def apply_outcome_def Let_def)
  next
    case False
    with br have b: "0 \<le> ?B" "?B < int n" and a: "0 \<le> ?A" "?A < int n"
      by (auto simp: bracket_ok_def)
    note rb = level_reads [OF inp dims b] and ra = level_reads [OF inp dims a]
    let ?P = "p ! nat ?jl"
    let ?g = "big_gap_ref (ICheck_BigGapInit opts) (zip (StandardLevels opts) (BigGaps opts)) (cround (?P * 0.01))"
    show ?thesis
    proof (cases "p ! nat ?B - ?P > ?g \<or> ?P - p ! nat ?A > ?g \<or> LogP sl ! nat ?B = LogP sl ! nat ?A")
      case True
      then show ?thesis using False get rj rb ra gap
        by (auto simp: check_level_def spec_step_def level_outcome_def apply_outcome_def Let_def)
    next
      case guards: False
      have rng: "\<forall>i\<in>set [?jl, ?B, ?A]. 0 \<le> i \<and> i < int n" using jl a b by auto
      have ci: "check_level opts fb sl p t j st =
          interp_test opts fb sl t ?jl ?B ?A ?P (LogP sl ! nat ?B) (LogP sl ! nat ?A) st"
        using False guards get rj rb ra gap by (simp add: check_level_def Let_def)
      let ?v = "log_interp (LogP sl ! nat ?B) (LogP sl ! nat ?A) (t ! nat ?B) (t ! nat ?A) (LogP sl ! nat ?jl)"
      let ?tol = "ICheck_TInterpTol opts * (if ?P < ICheck_TolRelaxPThresh opts then ICheck_TolRelax opts else 1)"
      define failed where "failed = (?tol < \<bar>t ! nat ?jl - ?v\<bar>)"
      have oc: "level_outcome opts fb sl p t (tFlags st) j = Checked ?v failed"
        using False guards by (simp add: level_outcome_def Let_def failed_def)
      have it: "interp_test opts fb sl t ?jl ?B ?A ?P (LogP sl ! nat ?B) (LogP sl ! nat ?A) st =
          (if failed then record_failure fb ?jl ?B ?A ((tInterp st)[nat ?jl := ?v]) st
           else Some (st\<lparr>tInterp := (tInterp st)[nat ?jl := ?v]\<rparr>))"
        by (simp only: interp_test_Some [OF inp dims rng] Let_def failed_def)
      have "interp_test opts fb sl t ?jl ?B ?A ?P (LogP sl ! nat ?B) (LogP sl ! nat ?A) st =
          Some (spec_step opts fb sl p t j st)"
        by (cases failed)
          (simp_all add: it record_failure_Some [OF dims rng] spec_step_def oc apply_outcome_def triple_def)
      with ci show ?thesis by simp
    qed
  qed
qed
subsection \<open>What a run of decisions does to each vector\<close>

lemma length_bump [simp]: "length (bump xs i) = length xs"
  by (simp add: bump_def)

lemma length_mark [simp]: "length (mark b xs i) = length xs"
  by (simp add: mark_def)

lemma length_fold_mark [simp]: "length (fold (\<lambda>k ys. mark b ys k) ks xs) = length xs"
  by (induction ks arbitrary: xs) (simp_all add: mark_def)

lemma length_fold_bump [simp]: "length (fold (\<lambda>k ys. bump ys k) ks xs) = length xs"
  by (induction ks arbitrary: xs) (simp_all add: bump_def)

lemma fold_mark_nth:
  "i < length xs \<Longrightarrow>
   fold (\<lambda>k ys. mark b ys k) ks xs ! i = (if i \<in> set ks then xs ! i OR b else xs ! i)"
proof (induction ks arbitrary: xs)
  case (Cons k ks)
  then show ?case by (cases "k < length xs") (auto simp: mark_def nth_list_update)
qed simp

lemma fold_bump_nth:
  "i < length xs \<Longrightarrow> fold (\<lambda>k ys. bump ys k) ks xs ! i = xs ! i + int (count_list ks i)"
proof (induction ks arbitrary: xs)
  case (Cons k ks)
  then show ?case by (auto simp: bump_def nth_list_update)
qed simp

lemma apply_outcome_lengths [simp]:
  "length (tFlags (apply_outcome fb sl j oc st)) = length (tFlags st)"
  "length (LevErrors (apply_outcome fb sl j oc st)) = length (LevErrors st)"
  "length (tInterp (apply_outcome fb sl j oc st)) = length (tInterp st)"
  "length (NumAnyErrors (apply_outcome fb sl j oc st)) = length (NumAnyErrors st)"
  "length (NumInterpErrors (apply_outcome fb sl j oc st)) = length (NumInterpErrors st)"
  by (simp_all add: apply_outcome_def Let_def split: level_outcome.split)

lemma run_outcomes_Cons [simp]:
  "run_outcomes fb sl oc (j # js) st = run_outcomes fb sl oc js (apply_outcome fb sl j (oc j) st)"
  by (simp add: run_outcomes_def)

lemma run_outcomes_Nil [simp]: "run_outcomes fb sl oc [] st = st"
  by (simp add: run_outcomes_def)

lemma run_outcomes_lengths [simp]:
  "length (tFlags (run_outcomes fb sl oc js st)) = length (tFlags st)"
  "length (LevErrors (run_outcomes fb sl oc js st)) = length (LevErrors st)"
  "length (tInterp (run_outcomes fb sl oc js st)) = length (tInterp st)"
  "length (NumAnyErrors (run_outcomes fb sl oc js st)) = length (NumAnyErrors st)"
  "length (NumInterpErrors (run_outcomes fb sl oc js st)) = length (NumInterpErrors st)"
  by (induction js arbitrary: st) simp_all

lemma run_outcomes_NumErrors:
  "NumErrors (run_outcomes fb sl oc js st) = NumErrors st + int (length (filter (is_failure \<circ> oc) js))"
  by (induction js arbitrary: st)
    (auto simp: apply_outcome_def Let_def split: level_outcome.split)

lemma run_outcomes_counters:
  assumes "0 < length (NumAnyErrors st)" and "0 < length (NumInterpErrors st)"
  shows "NumAnyErrors (run_outcomes fb sl oc js st) =
           (NumAnyErrors st)[0 := NumAnyErrors st ! 0 + int (length (filter (is_failure \<circ> oc) js))]"
    and "NumInterpErrors (run_outcomes fb sl oc js st) =
           (NumInterpErrors st)[0 := NumInterpErrors st ! 0 + int (length (filter (is_failure \<circ> oc) js))]"
  using assms
  by (induction js arbitrary: st)
    (auto simp: apply_outcome_def Let_def bump_def ac_simps split: level_outcome.split)

lemma run_outcomes_tFlags:
  "i < length (tFlags st) \<Longrightarrow>
   tFlags (run_outcomes fb sl oc js st) ! i =
     (if i \<in> set (participants sl (filter (is_failure \<circ> oc) js))
      then tFlags st ! i OR InterpolationFlag fb else tFlags st ! i)"
proof (induction js arbitrary: st)
  case (Cons j js)
  show ?case
  proof (cases "oc j")
    case Skipped
    with Cons show ?thesis by (simp add: apply_outcome_def participants_def)
  next
    case (Checked v f)
    with Cons show ?thesis
      by (cases f) (auto simp: apply_outcome_def participants_def fold_mark_nth)
  qed
qed (simp add: participants_def)

lemma run_outcomes_LevErrors:
  "i < length (LevErrors st) \<Longrightarrow>
   LevErrors (run_outcomes fb sl oc js st) ! i =
     LevErrors st ! i + int (count_list (participants sl (filter (is_failure \<circ> oc) js)) i)"
proof (induction js arbitrary: st)
  case (Cons j js)
  show ?case
  proof (cases "oc j")
    case Skipped
    with Cons show ?thesis by (simp add: apply_outcome_def participants_def)
  next
    case (Checked v f)
    with Cons show ?thesis
      by (cases f) (auto simp: apply_outcome_def participants_def fold_bump_nth)
  qed
qed (simp add: participants_def)

lemma run_outcomes_tInterp:
  "i < length (tInterp st) \<Longrightarrow>
   tInterp (run_outcomes fb sl oc js st) ! i =
     (case map_of (rev (interp_writes sl oc js)) i of None \<Rightarrow> tInterp st ! i | Some v \<Rightarrow> v)"
proof (induction js arbitrary: st)
  case (Cons j js)
  then show ?case
    by (auto simp: apply_outcome_def interp_writes_def Let_def map_add_def nth_list_update
        split: level_outcome.split option.split)
qed (simp add: interp_writes_def)

lemma map_mask_fold_mark:
  "b AND m = 0 \<Longrightarrow> map (\<lambda>x. x AND m) (fold (\<lambda>k ys. mark b ys k) ks xs) = map (\<lambda>x. x AND m) xs"
proof (induction ks arbitrary: xs)
  case (Cons k ks)
  have "map (\<lambda>x. x AND m) (mark b xs k) = map (\<lambda>x. x AND m) xs"
    using Cons.prems
    by (cases "k < length xs") (auto intro!: nth_equalityI simp: mark_def nth_list_update or_and_disjoint)
  with Cons show ?case by simp
qed simp

lemma apply_outcome_mask:
  "InterpolationFlag fb AND m = 0 \<Longrightarrow>
   map (\<lambda>x. x AND m) (tFlags (apply_outcome fb sl j oc st)) = map (\<lambda>x. x AND m) (tFlags st)"
  by (simp add: apply_outcome_def Let_def map_mask_fold_mark split: level_outcome.split)

lemma level_outcome_mask_cong:
  assumes "nat (StdLev sl ! nat j) < length fl"
    and "map (\<lambda>x. x AND SurfaceLevelFlag fb) fl = map (\<lambda>x. x AND SurfaceLevelFlag fb) fl'"
  shows "level_outcome opts fb sl p t fl j = level_outcome opts fb sl p t fl' j"
proof -
  let ?k = "nat (StdLev sl ! nat j)"
  from assms(2) have "length fl = length fl'" by (metis length_map)
  with assms have "fl ! ?k AND SurfaceLevelFlag fb = fl' ! ?k AND SurfaceLevelFlag fb"
    by (metis nth_map)
  then show ?thesis by (simp add: level_outcome_def Let_def)
qed

lemma fold_spec_step:
  assumes bits: "SurfaceLevelFlag fb AND InterpolationFlag fb = 0"
    and rng: "\<forall>j\<in>set js. nat (StdLev sl ! nat j) < length (tFlags st)"
    and mask: "map (\<lambda>x. x AND SurfaceLevelFlag fb) (tFlags st) = map (\<lambda>x. x AND SurfaceLevelFlag fb) fl0"
  shows "fold (spec_step opts fb sl p t) js st = run_outcomes fb sl (level_outcome opts fb sl p t fl0) js st"
  using rng mask
proof (induction js arbitrary: st)
  case (Cons j js)
  have bits': "InterpolationFlag fb AND SurfaceLevelFlag fb = 0" using bits by (simp add: and.commute)
  have oc: "level_outcome opts fb sl p t (tFlags st) j = level_outcome opts fb sl p t fl0 j"
    using Cons.prems by (intro level_outcome_mask_cong) auto
  let ?st' = "apply_outcome fb sl j (level_outcome opts fb sl p t fl0 j) st"
  have "fold (spec_step opts fb sl p t) js ?st' = run_outcomes fb sl (level_outcome opts fb sl p t fl0) js ?st'"
    using Cons.prems apply_outcome_mask [OF bits'] by (intro Cons.IH) auto
  moreover have "spec_step opts fb sl p t j st = ?st'" by (simp add: spec_step_def oc)
  ultimately show ?case by simp
qed simp

lemma dims_ok_apply_outcome [simp]: "dims_ok n (apply_outcome fb sl j oc st) = dims_ok n st"
  by (simp add: dims_ok_def)

text \<open>Every iteration, whatever its path, keeps the length of every vector.\<close>

lemma record_failure_dims:
  "record_failure fb jlev SigB SigA tI st = Some st' \<Longrightarrow> length tI = length (tInterp st) \<Longrightarrow>
   state_dims st' = state_dims st"
  by (auto simp: record_failure_def state_dims_def bind_eq_Some_conv dest!: vmodify_length)

lemma interp_test_dims:
  "interp_test opts fb sl t jlev SigB SigA PStd lB lA st = Some st' \<Longrightarrow> state_dims st' = state_dims st"
  by (auto simp: interp_test_def Let_def bind_eq_Some_conv state_dims_def
      dest!: vset_length record_failure_dims split: if_splits)

lemma check_level_dims:
  "check_level opts fb sl p t j st = Some st' \<Longrightarrow> state_dims st' = state_dims st"
  by (auto simp: check_level_def Let_def bind_eq_Some_conv dest!: interp_test_dims split: if_splits)

lemma interp_loop_dims:
  "interp_loop opts fb sl p t js st = Some st' \<Longrightarrow> state_dims st' = state_dims st"
  by (induction js arbitrary: st) (auto dest!: check_level_dims split: option.splits)

lemma interp_loop_fold:
  assumes "inputs_ok n opts sl p t" and "dims_ok n st"
    and "\<forall>j\<in>set js. 0 \<le> j \<and> std_level_ok n sl (nat j)"
  shows "interp_loop opts fb sl p t js st = Some (fold (spec_step opts fb sl p t) js st)"
  using assms(2,3)
proof (induction js arbitrary: st)
  case (Cons j js)
  then have "check_level opts fb sl p t j st = Some (spec_step opts fb sl p t j st)"
    by (intro check_level_spec [OF assms(1)]) auto
  with Cons show ?case by (simp add: spec_step_def)
qed simp

subsection \<open>Refinement of the loop\<close>

lemma interp_loop_eq_run:
  assumes "inputs_ok n opts sl p t" and "dims_ok n st"
    and "SurfaceLevelFlag fb AND InterpolationFlag fb = 0"
    and "\<forall>j\<in>set js. 0 \<le> j \<and> std_level_ok n sl (nat j)"
  shows "interp_loop opts fb sl p t js st =
           Some (run_outcomes fb sl (level_outcome opts fb sl p t (tFlags st)) js st)"
proof -
  have "\<forall>j\<in>set js. nat (StdLev sl ! nat j) < length (tFlags st)"
    using assms(2,4) by (auto simp: std_level_ok_def dims_ok_def)
  with assms show ?thesis
    by (simp add: interp_loop_fold fold_spec_step)
qed

text \<open>The counter loop is the loop over the index list \<open>[jlevstd..NumStd_ - 1]\<close>,
  by computation induction on the counter.\<close>

lemma interp_for_loop:
  "interp_for opts fb sl p t k st = interp_loop opts fb sl p t [k..NumStd sl - 1] st"
proof (induction opts fb sl p t k st rule: interp_for.induct)
  case (1 opts fb sl p t k st)
  show ?case
  proof (cases "k < NumStd sl")
    case True
    then have "[k..NumStd sl - 1] = k # [k + 1..NumStd sl - 1]" by (simp add: upto_rec1)
    with True "1.IH" show ?thesis
      by (simp add: interp_for.simps [of opts fb sl p t k st] split: option.split)
  next
    case False
    then show ?thesis by (simp add: interp_for.simps [of opts fb sl p t k st])
  qed
qed

text \<open>C1. Refinement: under the classifier's contract, with the surface and interpolation
  bits disjoint, the loop never accesses out of range and its result is the abstract
  decision of every standard level, all taken on the flags the loop started from,
  applied in the loop's order.\<close>

theorem interp_loop_refines:
  assumes "inputs_ok n opts sl p t" and "dims_ok n st"
    and "SurfaceLevelFlag fb AND InterpolationFlag fb = 0"
    and "\<forall>j\<in>set js. 0 \<le> j \<and> std_level_ok n sl (nat j)"
  shows "interp_loop opts fb sl p t js st =
           Some (run_outcomes fb sl (level_outcome opts fb sl p t (tFlags st)) js st)"
  using assms by (rule interp_loop_eq_run)

text \<open>C27. The loop always completes (specification 4.3, failure semantics): for a
  classification that meets its contract, inputs and state of matching sizes and
  disjoint flag bits, the counter loop started at \<open>jlevstd = 0\<close> terminates without
  an out-of-range access, having taken the decision of every standard level
  \<open>0..NumStd_-1\<close> once and in order.\<close>

theorem interp_for_completes:
  assumes "inputs_ok n opts sl p t" and "dims_ok n st"
    and "SurfaceLevelFlag fb AND InterpolationFlag fb = 0" and "std_levels_ok n sl"
  shows "interp_for opts fb sl p t 0 st =
           Some (run_outcomes fb sl (level_outcome opts fb sl p t (tFlags st)) [0..NumStd sl - 1] st)"
proof -
  have "\<forall>j\<in>set [0..NumStd sl - 1]. 0 \<le> j \<and> std_level_ok n sl (nat j)"
    using assms(4) by (auto intro: std_levels_okD(1))
  with assms(1-3) show ?thesis by (simp add: interp_for_loop interp_loop_eq_run)
qed

subsection \<open>Order independence\<close>

lemma mark_commute: "mark b (mark b xs i) k = mark b (mark b xs k) i"
  by (cases "i = k") (auto simp: mark_def list_update_swap nth_list_update intro!: nth_equalityI
      split: if_splits)

lemma bump_commute: "bump (bump xs i) k = bump (bump xs k) i"
  by (cases "i = k") (auto simp: bump_def list_update_swap nth_list_update intro!: nth_equalityI
      split: if_splits)

lemma fold_commute_pointwise:
  assumes "\<And>x y. (\<lambda>ys. g ys x) \<circ> (\<lambda>ys. g ys y) = (\<lambda>ys. g ys y) \<circ> (\<lambda>ys. g ys x)"
  shows "fold (\<lambda>k ys. g ys k) ks1 (fold (\<lambda>k ys. g ys k) ks2 xs) =
         fold (\<lambda>k ys. g ys k) ks2 (fold (\<lambda>k ys. g ys k) ks1 xs)"
proof -
  have "fold (\<lambda>k ys. g ys k) (ks2 @ ks1) = fold (\<lambda>k ys. g ys k) (ks1 @ ks2)"
    by (rule fold_multiset_equiv) (use assms in \<open>simp_all add: union_commute\<close>)
  then show ?thesis by (simp add: fun_eq_iff)
qed

lemma fold_mark_commute:
  "fold (\<lambda>k ys. mark b ys k) ks1 (fold (\<lambda>k ys. mark b ys k) ks2 xs) =
   fold (\<lambda>k ys. mark b ys k) ks2 (fold (\<lambda>k ys. mark b ys k) ks1 xs)"
  by (rule fold_commute_pointwise) (simp add: fun_eq_iff mark_commute)

lemma fold_bump_commute:
  "fold (\<lambda>k ys. bump ys k) ks1 (fold (\<lambda>k ys. bump ys k) ks2 xs) =
   fold (\<lambda>k ys. bump ys k) ks2 (fold (\<lambda>k ys. bump ys k) ks1 xs)"
  by (rule fold_commute_pointwise) (simp add: fun_eq_iff bump_commute)

lemma apply_outcome_commute:
  assumes "x = y \<or> nat (StdLev sl ! nat x) \<noteq> nat (StdLev sl ! nat y)"
  shows "apply_outcome fb sl x (oc x) (apply_outcome fb sl y (oc y) st) =
         apply_outcome fb sl y (oc y) (apply_outcome fb sl x (oc x) st)"
proof (cases "x = y")
  case False
  with assms have ne: "nat (StdLev sl ! nat x) \<noteq> nat (StdLev sl ! nat y)" by simp
  show ?thesis
    by (cases "oc x"; cases "oc y")
      (auto simp: apply_outcome_def Let_def list_update_swap [OF ne] fold_mark_commute fold_bump_commute
        bump_commute)
qed simp

lemma run_outcomes_perm:
  assumes "\<forall>x\<in>set js. \<forall>y\<in>set js. x = y \<or> nat (StdLev sl ! nat x) \<noteq> nat (StdLev sl ! nat y)"
    and "mset js' = mset js"
  shows "run_outcomes fb sl oc js' st = run_outcomes fb sl oc js st"
proof -
  have "fold (\<lambda>j. apply_outcome fb sl j (oc j)) js = fold (\<lambda>j. apply_outcome fb sl j (oc j)) js'"
    using assms by (intro fold_multiset_equiv) (auto simp: fun_eq_iff intro: apply_outcome_commute)
  then show ?thesis by (simp add: run_outcomes_def)
qed

text \<open>C10. Order independence: with distinct standard levels, running the loop over
  any permutation of the standard-level indices gives the same flags, counters and
  arrays.\<close>

theorem interp_loop_order_independent:
  assumes inp: "inputs_ok n opts sl p t" and dims: "dims_ok n st"
    and bits: "SurfaceLevelFlag fb AND InterpolationFlag fb = 0"
    and lev: "\<forall>j\<in>set js. 0 \<le> j \<and> std_level_ok n sl (nat j)"
    and dist: "distinct (map (\<lambda>j. StdLev sl ! nat j) js)"
    and perm: "mset js' = mset js"
  shows "interp_loop opts fb sl p t js' st = interp_loop opts fb sl p t js st"
proof -
  have sets: "set js' = set js" using perm by (metis set_mset_mset)
  have "\<forall>x\<in>set js. \<forall>y\<in>set js. x = y \<or> nat (StdLev sl ! nat x) \<noteq> nat (StdLev sl ! nat y)"
  proof (intro ballI)
    fix x y assume xy: "x \<in> set js" "y \<in> set js"
    show "x = y \<or> nat (StdLev sl ! nat x) \<noteq> nat (StdLev sl ! nat y)"
    proof (cases "x = y")
      case False
      with xy dist have "StdLev sl ! nat x \<noteq> StdLev sl ! nat y"
        by (auto simp: distinct_map inj_on_def)
      moreover have "0 \<le> StdLev sl ! nat x" "0 \<le> StdLev sl ! nat y"
        using xy lev by (auto simp: std_level_ok_def)
      ultimately show ?thesis by (simp add: eq_nat_nat_iff)
    qed simp
  qed
  then have eq: "run_outcomes fb sl (level_outcome opts fb sl p t (tFlags st)) js' st =
      run_outcomes fb sl (level_outcome opts fb sl p t (tFlags st)) js st"
    using perm by (rule run_outcomes_perm)
  have lev': "\<forall>j\<in>set js'. 0 \<le> j \<and> std_level_ok n sl (nat j)" using lev sets by simp
  show ?thesis
    unfolding interp_loop_eq_run [OF inp dims bits lev] interp_loop_eq_run [OF inp dims bits lev'] eq ..
qed

subsection \<open>Single iterations\<close>

text \<open>C7. The surface test comes first: a standard level whose flags carry the surface
  bit is skipped before any other vector is read, whatever its brackets, pressure or
  observation.\<close>

theorem check_level_surface_first:
  assumes "vget (StdLev sl) j = Some jlev" and "vget (tFlags st) jlev = Some fl"
    and "fl AND SurfaceLevelFlag fb \<noteq> 0"
  shows "check_level opts fb sl p t j st = Some st"
  using assms by (simp add: check_level_def)

lemma check_level_Skipped:
  assumes "inputs_ok n opts sl p t" and "dims_ok n st" and "std_level_ok n sl (nat j)" and "0 \<le> j"
    and "level_outcome opts fb sl p t (tFlags st) j = Skipped"
  shows "check_level opts fb sl p t j st = Some st"
  using check_level_spec [OF assms(1-4)] assms(5) by (simp add: spec_step_def apply_outcome_def)

text \<open>C11. A standard level without a significant level below or above it (the
  sentinel -1) is not evaluated: the iteration leaves the state unchanged.\<close>

theorem check_level_no_bracket:
  assumes "inputs_ok n opts sl p t" and "dims_ok n st" and "std_level_ok n sl (nat j)" and "0 \<le> j"
    and "SigBelow sl ! nat j = -1 \<or> SigAbove sl ! nat j = -1"
  shows "check_level opts fb sl p t j st = Some st"
  using assms by (intro check_level_Skipped) (auto simp: level_outcome_def Let_def)

text \<open>C12. A standard level farther than the selected big gap from either bracket is
  not evaluated, however inconsistent its observation.\<close>

theorem check_level_gap_skip:
  assumes "inputs_ok n opts sl p t" and "dims_ok n st" and "std_level_ok n sl (nat j)" and "0 \<le> j"
    and "StdLev sl ! nat j = int jl" and "SigBelow sl ! nat j = int b" and "SigAbove sl ! nat j = int a"
    and "p ! b - p ! jl > big_gap_ref (ICheck_BigGapInit opts) (zip (StandardLevels opts) (BigGaps opts))
                              (cround (p ! jl * 0.01))
         \<or> p ! jl - p ! a > big_gap_ref (ICheck_BigGapInit opts) (zip (StandardLevels opts) (BigGaps opts))
                              (cround (p ! jl * 0.01))"
  shows "check_level opts fb sl p t j st = Some st"
proof (rule check_level_Skipped [OF assms(1-4)])
  define g where "g = big_gap_ref (ICheck_BigGapInit opts) (zip (StandardLevels opts) (BigGaps opts))
                        (cround (p ! jl * 0.01))"
  have far: "(p ! b - p ! jl > g \<or> p ! jl - p ! a > g \<or> LogP sl ! b = LogP sl ! a) = True"
    using assms(8) unfolding g_def by blast
  show "level_outcome opts fb sl p t (tFlags st) j = Skipped"
    unfolding level_outcome_def Let_def assms(5-7) nat_int g_def [symmetric] far if_True
    by simp
qed

text \<open>C6. Interpolation (eqn 3.3a/b): when every guard passes, the iteration stores the
  linear interpolation in log-pressure between the brackets' observations at
  \<open>tInterp_[jlev]\<close>, and counts an error exactly when the observation differs from
  it by more than the tolerance, relaxed below the threshold pressure.\<close>

theorem check_level_interpolates:
  assumes inp: "inputs_ok n opts sl p t" and dims: "dims_ok n st"
    and lev: "std_level_ok n sl (nat j)" and j0: "0 \<le> j"
    and idx: "StdLev sl ! nat j = int jl" "SigBelow sl ! nat j = int b" "SigAbove sl ! nat j = int a"
    and surf: "tFlags st ! jl AND SurfaceLevelFlag fb = 0"
    and dense: "\<not> NumSig sl < max 3 (NumStd sl sdiv 2)"
    and near: "\<not> p ! b - p ! jl > big_gap_ref (ICheck_BigGapInit opts) (zip (StandardLevels opts) (BigGaps opts))
                                      (cround (p ! jl * 0.01))"
              "\<not> p ! jl - p ! a > big_gap_ref (ICheck_BigGapInit opts) (zip (StandardLevels opts) (BigGaps opts))
                                      (cround (p ! jl * 0.01))"
    and distinct_lp: "LogP sl ! b \<noteq> LogP sl ! a"
  shows "let v = t ! b + (t ! a - t ! b) * ((LogP sl ! jl - LogP sl ! b) / (LogP sl ! a - LogP sl ! b));
             tol = ICheck_TInterpTol opts *
                     (if p ! jl < ICheck_TolRelaxPThresh opts then ICheck_TolRelax opts else 1)
         in \<exists>st'. check_level opts fb sl p t j st = Some st' \<and> tInterp st' ! jl = v \<and>
                  NumErrors st' = NumErrors st + (if tol < \<bar>t ! jl - v\<bar> then 1 else 0)"
proof -
  define g where "g = big_gap_ref (ICheck_BigGapInit opts) (zip (StandardLevels opts) (BigGaps opts))
                        (cround (p ! jl * 0.01))"
  define v where "v = log_interp (LogP sl ! b) (LogP sl ! a) (t ! b) (t ! a) (LogP sl ! jl)"
  define tol where "tol = ICheck_TInterpTol opts *
                     (if p ! jl < ICheck_TolRelaxPThresh opts then ICheck_TolRelax opts else 1)"
  define failed where "failed = (tol < \<bar>t ! jl - v\<bar>)"
  have guards: "(p ! b - p ! jl > g \<or> p ! jl - p ! a > g \<or> LogP sl ! b = LogP sl ! a) = False"
    using near distinct_lp unfolding g_def by blast
  have oc: "level_outcome opts fb sl p t (tFlags st) j = Checked v failed"
    unfolding level_outcome_def Let_def idx nat_int g_def [symmetric] guards
    using surf dense by (simp add: v_def tol_def failed_def)
  have jl: "jl < length (tInterp st)"
    using lev idx dims by (auto simp: std_level_ok_def dims_ok_def)
  have "check_level opts fb sl p t j st = Some (apply_outcome fb sl j (Checked v failed) st)"
    using check_level_spec [OF inp dims lev j0] by (simp add: spec_step_def oc)
  moreover have "tInterp (apply_outcome fb sl j (Checked v failed) st) ! jl = v"
    using jl idx by (cases failed) (simp_all add: apply_outcome_def)
  moreover have "NumErrors (apply_outcome fb sl j (Checked v failed) st) =
      NumErrors st + (if failed then 1 else 0)"
    by (cases failed) (simp_all add: apply_outcome_def)
  ultimately show ?thesis
    unfolding Let_def by (simp add: failed_def tol_def v_def log_interp_def)
qed

subsection \<open>Running the decisions again\<close>

text \<open>The decisions never change the surface bits; \<open>LevErrors\<close> and \<open>tInterp\<close> after a
  run depend only on their values before it; and running the same decisions from the
  flags a run produced leaves those flags as they are.\<close>

lemma run_outcomes_mask:
  "InterpolationFlag fb AND m = 0 \<Longrightarrow>
   map (\<lambda>x. x AND m) (tFlags (run_outcomes fb sl oc js st)) = map (\<lambda>x. x AND m) (tFlags st)"
  by (induction js arbitrary: st) (simp_all add: apply_outcome_mask)

lemma run_outcomes_cong:
  "\<forall>j\<in>set js. oc j = oc' j \<Longrightarrow> run_outcomes fb sl oc js st = run_outcomes fb sl oc' js st"
  by (induction js arbitrary: st) simp_all

lemma run_outcomes_LevErrors_cong:
  "LevErrors st = LevErrors st' \<Longrightarrow>
   LevErrors (run_outcomes fb sl oc js st) = LevErrors (run_outcomes fb sl oc js st')"
proof (induction js arbitrary: st st')
  case (Cons j js)
  have "LevErrors (apply_outcome fb sl j (oc j) st) = LevErrors (apply_outcome fb sl j (oc j) st')"
    using Cons.prems by (simp add: apply_outcome_def Let_def split: level_outcome.split)
  then show ?case unfolding run_outcomes_Cons by (rule Cons.IH)
qed simp

lemma run_outcomes_tInterp_cong:
  "tInterp st = tInterp st' \<Longrightarrow>
   tInterp (run_outcomes fb sl oc js st) = tInterp (run_outcomes fb sl oc js st')"
proof (induction js arbitrary: st st')
  case (Cons j js)
  have "tInterp (apply_outcome fb sl j (oc j) st) = tInterp (apply_outcome fb sl j (oc j) st')"
    using Cons.prems by (simp add: apply_outcome_def Let_def split: level_outcome.split)
  then show ?case unfolding run_outcomes_Cons by (rule Cons.IH)
qed simp

lemma run_outcomes_tFlags_idem:
  assumes st': "tFlags st' = tFlags (run_outcomes fb sl oc js st)"
  shows "tFlags (run_outcomes fb sl oc js st') = tFlags st'"
proof (rule nth_equalityI)
  show "length (tFlags (run_outcomes fb sl oc js st')) = length (tFlags st')" by simp
next
  fix i assume "i < length (tFlags (run_outcomes fb sl oc js st'))"
  then have i: "i < length (tFlags st')" "i < length (tFlags st)" using st' by simp_all
  define P where "P = set (participants sl (filter (is_failure \<circ> oc) js))"
  have a: "tFlags (run_outcomes fb sl oc js st') ! i =
      (if i \<in> P then tFlags st' ! i OR InterpolationFlag fb else tFlags st' ! i)"
    using run_outcomes_tFlags [OF i(1)] by (simp add: P_def)
  have b: "tFlags st' ! i = (if i \<in> P then tFlags st ! i OR InterpolationFlag fb else tFlags st ! i)"
    unfolding st' using run_outcomes_tFlags [OF i(2)] by (simp add: P_def)
  show "tFlags (run_outcomes fb sl oc js st') ! i = tFlags st' ! i"
    unfolding a using b by (cases "i \<in> P") simp_all
qed

end
