(* ===== verification/Preflight.thy ===== *)
theory Preflight
  imports Prelude
begin

text \<open>
  The preflight helpers \<open>runCheck\<close> calls before it touches a profile
  (src/unnamed/part_000, lines 48--60): \<open>oops::anyVectorEmpty\<close>,
  \<open>oops::allVectorsSameSize\<close> and \<open>ProfileCheckBase::correctVector\<close>. Their code is
  not in this repository; they are modelled from the specification (sections 4.1
  and 4.2), over the five vectors the check reads.
\<close>

definition anyVectorEmpty :: "'a list \<Rightarrow> 'b list \<Rightarrow> 'c list \<Rightarrow> 'd list \<Rightarrow> 'e list \<Rightarrow> bool" where
  "anyVectorEmpty a b c d e \<longleftrightarrow> a = [] \<or> b = [] \<or> c = [] \<or> d = [] \<or> e = []"

definition allVectorsSameSize :: "'a list \<Rightarrow> 'b list \<Rightarrow> 'c list \<Rightarrow> 'd list \<Rightarrow> 'e list \<Rightarrow> bool" where
  "allVectorsSameSize a b c d e \<longleftrightarrow>
     length b = length a \<and> length c = length a \<and> length d = length a \<and> length e = length a"

definition correctVector :: "real list \<Rightarrow> real list \<Rightarrow> real list" where
  "correctVector v1 v2 = map2 (+) v1 v2"

lemma length_correctVector [simp]:
  "length v2 = length v1 \<Longrightarrow> length (correctVector v1 v2) = length v1"
  by (simp add: correctVector_def)

end
