(* ===== verification/ProfileCheckInterpolation.thy ===== *)
theory ProfileCheckInterpolation
  imports InterpLevel Preflight
begin

text \<open>
  \<open>ProfileCheckInterpolation::runCheck\<close> and \<open>fillValidator\<close>
  (src/unnamed/part_000, lines 25--156). The profile data handler is a record with one
  field per key the check reads or writes (the names of \<open>ufo::VariableNames\<close>); the
  check object keeps the classifier's output and the members \<open>LevErrors_\<close> and
  \<open>tInterp_\<close>; a run also records the warnings it logs. The debug output of the
  failure branch is modelled in \<open>DebugLog\<close>.
\<close>

record profile_data =
  name_air_pressure :: "real list"
  name_obs_air_temperature :: "real list"
  name_hofx_air_temperature :: "real list"
  name_qc_tFlags :: "int list"
  name_counter_NumAnyErrors :: "int list"
  name_counter_NumInterpErrors :: "int list"
  name_counter_NumInterpErrObs :: "int list"
  name_tObsCorrection :: "real list"
  name_StdLev :: "int list"
  name_SigAbove :: "int list"
  name_SigBelow :: "int list"
  name_IndStd :: "int list"
  name_LevErrors :: "int list"
  name_tInterp :: "real list"
  name_LogP :: "real list"
  name_NumStd :: "int list"
  name_NumSig :: "int list"

record interp_check =
  levels :: std_levels
  m_LevErrors :: "int list"
  m_tInterp :: "real list"

datatype warning = EmptyVector | SizeMismatch

record check_run =
  handler :: profile_data
  check_obj :: interp_check
  warnings :: "warning list"

text \<open>\<open>util::missingValue(float)\<close>, the value \<open>tInterp_\<close> starts from.\<close>

definition missingValueFloat :: real where
  "missingValueFloat = - 33687953 * 10 ^ 31"

definition runCheck ::
  "interp_options \<Rightarrow> flag_bits \<Rightarrow> std_levels_fn \<Rightarrow> nat \<Rightarrow> check_run \<Rightarrow> check_run option" where
  "runCheck opts fb calcStdLevels numLevelsToCheck r =
     (let dh = handler r;
          pressures = name_air_pressure dh;
          tObs = name_obs_air_temperature dh;
          tBkg = name_hofx_air_temperature dh;
          tFlags0 = name_qc_tFlags dh;
          tObsCorrection = name_tObsCorrection dh
      in if anyVectorEmpty pressures tObs tBkg tFlags0 tObsCorrection
         then Some (r\<lparr>warnings := warnings r @ [EmptyVector]\<rparr>)
         else if \<not> allVectorsSameSize pressures tObs tBkg tFlags0 tObsCorrection
         then Some (r\<lparr>warnings := warnings r @ [SizeMismatch]\<rparr>)
         else
           let tObsFinal = correctVector tObs tObsCorrection;
               sl = calcStdLevels numLevelsToCheck pressures tObsFinal tFlags0;
               st0 = \<lparr>tFlags = tFlags0, NumAnyErrors = name_counter_NumAnyErrors dh,
                      NumInterpErrors = name_counter_NumInterpErrors dh,
                      LevErrors = replicate numLevelsToCheck (-1),
                      tInterp = replicate numLevelsToCheck missingValueFloat, NumErrors = 0\<rparr>
           in do {
             st \<leftarrow> interp_for opts fb sl pressures tObsFinal 0 st0;
             obs \<leftarrow> (if NumErrors st > 0
                     then vmodify (\<lambda>c. c + 1) (name_counter_NumInterpErrObs dh) 0
                     else Some (name_counter_NumInterpErrObs dh));
             Some (r\<lparr>handler := dh\<lparr>name_qc_tFlags := tFlags st,
                                     name_counter_NumAnyErrors := NumAnyErrors st,
                                     name_counter_NumInterpErrors := NumInterpErrors st,
                                     name_counter_NumInterpErrObs := obs\<rparr>,
                     check_obj := \<lparr>levels = sl, m_LevErrors = LevErrors st, m_tInterp = tInterp st\<rparr>\<rparr>)
           })"

definition fillValidator :: "nat \<Rightarrow> check_run \<Rightarrow> check_run" where
  "fillValidator numLevelsToCheck r =
     (let c = check_obj r; sl = levels c
      in r\<lparr>handler := (handler r)\<lparr>
             name_StdLev := StdLev sl, name_SigAbove := SigAbove sl, name_SigBelow := SigBelow sl,
             name_IndStd := IndStd sl, name_LevErrors := m_LevErrors c, name_tInterp := m_tInterp c,
             name_LogP := LogP sl,
             name_NumStd := replicate numLevelsToCheck (NumStd sl),
             name_NumSig := replicate numLevelsToCheck (NumSig sl)\<rparr>\<rparr>)"

subsection \<open>The run in terms of the abstract decisions\<close>

text \<open>What \<open>runCheck\<close> hands the loop, and the conditions under which it performs no
  out-of-range access: valid input vectors, \<open>numLevelsToCheck\<close> within them, a
  classification that meets its contract, a gap for every band, surface and
  interpolation bits that do not overlap, and a slot in each counter vector.\<close>

definition tObsFinal_of :: "profile_data \<Rightarrow> real list" where
  "tObsFinal_of dh = correctVector (name_obs_air_temperature dh) (name_tObsCorrection dh)"

definition levels_of :: "std_levels_fn \<Rightarrow> nat \<Rightarrow> profile_data \<Rightarrow> std_levels" where
  "levels_of calc n dh = calc n (name_air_pressure dh) (tObsFinal_of dh) (name_qc_tFlags dh)"

definition outcomes_of ::
  "interp_options \<Rightarrow> flag_bits \<Rightarrow> std_levels_fn \<Rightarrow> nat \<Rightarrow> profile_data \<Rightarrow> int \<Rightarrow> level_outcome" where
  "outcomes_of opts fb calc n dh =
     level_outcome opts fb (levels_of calc n dh) (name_air_pressure dh) (tObsFinal_of dh) (name_qc_tFlags dh)"

definition std_indices :: "std_levels \<Rightarrow> int list" where
  "std_indices sl = [0..NumStd sl - 1]"

definition failures_of ::
  "interp_options \<Rightarrow> flag_bits \<Rightarrow> std_levels_fn \<Rightarrow> nat \<Rightarrow> profile_data \<Rightarrow> int list" where
  "failures_of opts fb calc n dh =
     filter (is_failure \<circ> outcomes_of opts fb calc n dh) (std_indices (levels_of calc n dh))"

definition inputs_valid :: "profile_data \<Rightarrow> bool" where
  "inputs_valid dh \<longleftrightarrow>
     \<not> anyVectorEmpty (name_air_pressure dh) (name_obs_air_temperature dh)
         (name_hofx_air_temperature dh) (name_qc_tFlags dh) (name_tObsCorrection dh) \<and>
     allVectorsSameSize (name_air_pressure dh) (name_obs_air_temperature dh)
         (name_hofx_air_temperature dh) (name_qc_tFlags dh) (name_tObsCorrection dh)"

definition run_pre :: "interp_options \<Rightarrow> flag_bits \<Rightarrow> std_levels_fn \<Rightarrow> nat \<Rightarrow> profile_data \<Rightarrow> bool" where
  "run_pre opts fb calc n dh \<longleftrightarrow>
     inputs_valid dh \<and> n \<le> length (name_air_pressure dh) \<and>
     std_levels_ok n (levels_of calc n dh) \<and>
     length (StandardLevels opts) \<le> length (BigGaps opts) \<and>
     SurfaceLevelFlag fb AND InterpolationFlag fb = 0 \<and>
     name_counter_NumAnyErrors dh \<noteq> [] \<and> name_counter_NumInterpErrors dh \<noteq> [] \<and>
     name_counter_NumInterpErrObs dh \<noteq> []"

definition init_state :: "nat \<Rightarrow> profile_data \<Rightarrow> interp_state" where
  "init_state n dh = \<lparr>tFlags = name_qc_tFlags dh, NumAnyErrors = name_counter_NumAnyErrors dh,
      NumInterpErrors = name_counter_NumInterpErrors dh, LevErrors = replicate n (-1),
      tInterp = replicate n missingValueFloat, NumErrors = 0\<rparr>"

definition abstract_run ::
  "interp_options \<Rightarrow> flag_bits \<Rightarrow> std_levels_fn \<Rightarrow> nat \<Rightarrow> profile_data \<Rightarrow> interp_state" where
  "abstract_run opts fb calc n dh =
     run_outcomes fb (levels_of calc n dh) (outcomes_of opts fb calc n dh)
       (std_indices (levels_of calc n dh)) (init_state n dh)"

text \<open>What \<open>fillValidator\<close> publishes is well formed: one \<open>LevErrors\<close>, \<open>tInterp\<close>,
  \<open>NumStd\<close> and \<open>NumSig\<close> entry per level, error counts at least -1, and the first
  \<open>k\<close> standard-level indices within the profile.\<close>

definition published_ok :: "nat \<Rightarrow> nat \<Rightarrow> profile_data \<Rightarrow> bool" where
  "published_ok n k dh \<longleftrightarrow>
     length (name_LevErrors dh) = n \<and> length (name_tInterp dh) = n \<and>
     length (name_NumStd dh) = n \<and> length (name_NumSig dh) = n \<and>
     list_all (\<lambda>e. -1 \<le> e) (name_LevErrors dh) \<and>
     k \<le> length (name_StdLev dh) \<and> list_all (\<lambda>s. 0 \<le> s \<and> s < int n) (take k (name_StdLev dh))"

lemma std_indices_ok:
  assumes "std_levels_ok n sl"
  shows "\<forall>j\<in>set (std_indices sl). 0 \<le> j \<and> std_level_ok n sl (nat j)"
  using assms by (auto simp: std_indices_def intro: std_levels_okD)

lemma run_pre_loop:
  assumes pre: "run_pre opts fb calc n dh"
  shows "interp_loop opts fb (levels_of calc n dh) (name_air_pressure dh) (tObsFinal_of dh)
           (std_indices (levels_of calc n dh)) (init_state n dh) = Some (abstract_run opts fb calc n dh)"
proof -
  let ?sl = "levels_of calc n dh"
  from pre have sz: "length (name_obs_air_temperature dh) = length (name_air_pressure dh)"
      "length (name_tObsCorrection dh) = length (name_air_pressure dh)"
      "length (name_qc_tFlags dh) = length (name_air_pressure dh)"
    by (auto simp: run_pre_def inputs_valid_def allVectorsSameSize_def)
  from pre have ok: "std_levels_ok n ?sl" by (simp add: run_pre_def)
  have inp: "inputs_ok n opts ?sl (name_air_pressure dh) (tObsFinal_of dh)"
    using pre ok sz by (auto simp: inputs_ok_def run_pre_def std_levels_ok_def tObsFinal_of_def)
  have dims: "dims_ok n (init_state n dh)"
    using pre sz by (auto simp: dims_ok_def init_state_def run_pre_def)
  from pre have bits: "SurfaceLevelFlag fb AND InterpolationFlag fb = 0" by (simp add: run_pre_def)
  show ?thesis
    using interp_loop_eq_run [OF inp dims bits std_indices_ok [OF ok]]
    by (simp add: abstract_run_def outcomes_of_def init_state_def)
qed

lemma abstract_run_NumErrors:
  "NumErrors (abstract_run opts fb calc n dh) = int (length (failures_of opts fb calc n dh))"
  by (simp add: abstract_run_def run_outcomes_NumErrors failures_of_def init_state_def)

lemma runCheck_abstract:
  assumes pre: "run_pre opts fb calc n (handler r)"
  shows "runCheck opts fb calc n r =
    Some (r\<lparr>handler := (handler r)\<lparr>
              name_qc_tFlags := tFlags (abstract_run opts fb calc n (handler r)),
              name_counter_NumAnyErrors := NumAnyErrors (abstract_run opts fb calc n (handler r)),
              name_counter_NumInterpErrors := NumInterpErrors (abstract_run opts fb calc n (handler r)),
              name_counter_NumInterpErrObs :=
                (if failures_of opts fb calc n (handler r) = [] then name_counter_NumInterpErrObs (handler r)
                 else bump (name_counter_NumInterpErrObs (handler r)) 0)\<rparr>,
            check_obj := \<lparr>levels = levels_of calc n (handler r),
              m_LevErrors = LevErrors (abstract_run opts fb calc n (handler r)),
              m_tInterp = tInterp (abstract_run opts fb calc n (handler r))\<rparr>\<rparr>)"
proof -
  let ?dh = "handler r"
  have loop: "interp_loop opts fb (levels_of calc n ?dh) (name_air_pressure ?dh) (tObsFinal_of ?dh)
      [0..NumStd (levels_of calc n ?dh) - 1] (init_state n ?dh) = Some (abstract_run opts fb calc n ?dh)"
    using run_pre_loop [OF pre] by (simp add: std_indices_def)
  have valid: "inputs_valid ?dh" and obs: "name_counter_NumInterpErrObs ?dh \<noteq> []"
    using pre by (simp_all add: run_pre_def)
  show ?thesis
    using loop valid obs abstract_run_NumErrors [of opts fb calc n ?dh]
    by (auto simp: runCheck_def Let_def inputs_valid_def levels_of_def tObsFinal_of_def init_state_def
        vec_simps bump_def interp_for_loop)
qed
lemma init_state_simps [simp]:
  "tFlags (init_state n dh) = name_qc_tFlags dh"
  "NumAnyErrors (init_state n dh) = name_counter_NumAnyErrors dh"
  "NumInterpErrors (init_state n dh) = name_counter_NumInterpErrors dh"
  "LevErrors (init_state n dh) = replicate n (-1)"
  "tInterp (init_state n dh) = replicate n missingValueFloat"
  by (simp_all add: init_state_def)

lemma abstract_run_LevErrors:
  "i < n \<Longrightarrow> LevErrors (abstract_run opts fb calc n dh) ! i =
     -1 + int (count_list (participants (levels_of calc n dh) (failures_of opts fb calc n dh)) i)"
  by (simp add: abstract_run_def run_outcomes_LevErrors failures_of_def)

lemma abstract_run_counters:
  assumes "0 < length (name_counter_NumAnyErrors dh)" and "0 < length (name_counter_NumInterpErrors dh)"
  shows "NumAnyErrors (abstract_run opts fb calc n dh) = (name_counter_NumAnyErrors dh)
           [0 := name_counter_NumAnyErrors dh ! 0 + int (length (failures_of opts fb calc n dh))]"
    and "NumInterpErrors (abstract_run opts fb calc n dh) = (name_counter_NumInterpErrors dh)
           [0 := name_counter_NumInterpErrors dh ! 0 + int (length (failures_of opts fb calc n dh))]"
  using run_outcomes_counters [of "init_state n dh"] assms
  by (simp_all add: abstract_run_def failures_of_def)

text \<open>C2. Counters: the run adds the number of failing standard levels to
  \<open>NumAnyErrors[0]\<close> and \<open>NumInterpErrors[0]\<close>, and one to \<open>NumInterpErrObs[0]\<close>
  exactly when some level failed.\<close>

theorem runCheck_counters:
  assumes "run_pre opts fb calc n (handler r)"
  shows "map_option (\<lambda>r'. (name_counter_NumAnyErrors (handler r'), name_counter_NumInterpErrors (handler r'),
                             name_counter_NumInterpErrObs (handler r'))) (runCheck opts fb calc n r) =
         (let dh = handler r; k = int (length (failures_of opts fb calc n dh))
          in Some ((name_counter_NumAnyErrors dh)[0 := name_counter_NumAnyErrors dh ! 0 + k],
                   (name_counter_NumInterpErrors dh)[0 := name_counter_NumInterpErrors dh ! 0 + k],
                   (name_counter_NumInterpErrObs dh)[0 := name_counter_NumInterpErrObs dh ! 0 +
                      (if failures_of opts fb calc n dh = [] then 0 else 1)]))"
proof -
  from assms have ne: "0 < length (name_counter_NumAnyErrors (handler r))"
      "0 < length (name_counter_NumInterpErrors (handler r))"
    by (auto simp: run_pre_def)
  show ?thesis
    using abstract_run_counters [OF ne, of opts fb calc]
    by (simp add: runCheck_abstract [OF assms] bump_def Let_def)
qed

text \<open>C3. Flags: a level gains the interpolation bit exactly when it is the standard
  level or a bracket of a failing test; every other bit of every level is kept.\<close>

theorem runCheck_flags:
  assumes "run_pre opts fb calc n (handler r)" and "i < length (name_qc_tFlags (handler r))"
  shows "map_option (\<lambda>r'. name_qc_tFlags (handler r') ! i) (runCheck opts fb calc n r) =
         Some (if i \<in> set (participants (levels_of calc n (handler r)) (failures_of opts fb calc n (handler r)))
               then name_qc_tFlags (handler r) ! i OR InterpolationFlag fb
               else name_qc_tFlags (handler r) ! i)"
  using assms(2)
  by (simp add: runCheck_abstract [OF assms(1)] abstract_run_def run_outcomes_tFlags failures_of_def)

text \<open>C4. Per-level error counts: \<open>LevErrors_[i]\<close> is -1 plus the number of failing
  tests level \<open>i\<close> takes part in (as standard level or bracket).\<close>

theorem runCheck_LevErrors:
  assumes "run_pre opts fb calc n (handler r)" and "i < n"
  shows "map_option (\<lambda>r'. m_LevErrors (check_obj r') ! i) (runCheck opts fb calc n r) =
         Some (-1 + int (count_list (participants (levels_of calc n (handler r))
                                      (failures_of opts fb calc n (handler r))) i))"
  using assms(2) by (simp add: runCheck_abstract [OF assms(1)] abstract_run_LevErrors)

text \<open>C5. Interpolated values: \<open>tInterp_[i]\<close> holds the value of the last evaluated
  standard level at \<open>i\<close>, and the missing value where none was evaluated.\<close>

theorem runCheck_tInterp:
  assumes "run_pre opts fb calc n (handler r)" and "i < n"
  shows "map_option (\<lambda>r'. m_tInterp (check_obj r') ! i) (runCheck opts fb calc n r) =
         Some (case map_of (rev (interp_writes (levels_of calc n (handler r)) (outcomes_of opts fb calc n (handler r))
                                   (std_indices (levels_of calc n (handler r))))) i of
                 None \<Rightarrow> missingValueFloat | Some v \<Rightarrow> v)"
  using assms(2)
  by (simp add: runCheck_abstract [OF assms(1)] abstract_run_def run_outcomes_tInterp split: option.split)

text \<open>C15. Preflight: with an empty input vector the run logs \<open>EmptyVector\<close> and
  changes nothing else.\<close>

theorem runCheck_empty_vector:
  assumes "anyVectorEmpty (name_air_pressure (handler r)) (name_obs_air_temperature (handler r))
             (name_hofx_air_temperature (handler r)) (name_qc_tFlags (handler r)) (name_tObsCorrection (handler r))"
  shows "runCheck opts fb calc n r = Some (r\<lparr>warnings := warnings r @ [EmptyVector]\<rparr>)"
  using assms by (simp add: runCheck_def Let_def)

text \<open>C16. Preflight: with vectors of different sizes (none empty) the run logs
  \<open>SizeMismatch\<close> and changes nothing else.\<close>

theorem runCheck_size_mismatch:
  assumes "\<not> anyVectorEmpty (name_air_pressure (handler r)) (name_obs_air_temperature (handler r))
             (name_hofx_air_temperature (handler r)) (name_qc_tFlags (handler r)) (name_tObsCorrection (handler r))"
    and "\<not> allVectorsSameSize (name_air_pressure (handler r)) (name_obs_air_temperature (handler r))
             (name_hofx_air_temperature (handler r)) (name_qc_tFlags (handler r)) (name_tObsCorrection (handler r))"
  shows "runCheck opts fb calc n r = Some (r\<lparr>warnings := warnings r @ [SizeMismatch]\<rparr>)"
  using assms by (simp add: runCheck_def Let_def)

text \<open>C14. No standard levels: whatever the classifier, flags and counters are unchanged,
  every \<open>LevErrors_\<close> is -1 and every \<open>tInterp_\<close> the missing value.\<close>

theorem runCheck_no_std_levels:
  assumes "inputs_valid (handler r)" and "NumStd (levels_of calc n (handler r)) \<le> 0"
  shows "runCheck opts fb calc n r =
    Some (r\<lparr>check_obj := \<lparr>levels = levels_of calc n (handler r), m_LevErrors = replicate n (-1),
                              m_tInterp = replicate n missingValueFloat\<rparr>\<rparr>)"
  using assms by (simp add: runCheck_def Let_def inputs_valid_def levels_of_def tObsFinal_of_def interp_for.simps)

lemma length_participants: "length (participants sl js) = 3 * length js"
  by (induction js) (simp_all add: participants_def triple_def)

lemma length_std_indices: "length (std_indices sl) = nat (NumStd sl)"
  by (simp add: std_indices_def)

text \<open>C8. No undefined behaviour: under the preconditions every vector access of the
  run is in range, so the run returns.\<close>

theorem runCheck_returns:
  "run_pre opts fb calc n (handler r) \<Longrightarrow> runCheck opts fb calc n r \<noteq> None"
  by (simp add: runCheck_abstract)

text \<open>C9. Bounds: every \<open>LevErrors_[i]\<close> lies between -1 and \<open>3 * NumStd - 1\<close>, and a
  run adds at most \<open>NumStd\<close> to each error counter, so counters that start at least
  \<open>NumStd\<close> below the largest C++ \<open>int\<close> do not overflow.\<close>

theorem runCheck_bounds:
  assumes pre: "run_pre opts fb calc n (handler r)" and i: "i < n"
  shows "\<exists>r'. runCheck opts fb calc n r = Some r' \<and>
           -1 \<le> m_LevErrors (check_obj r') ! i \<and>
           m_LevErrors (check_obj r') ! i \<le> 3 * NumStd (levels_of calc n (handler r)) - 1 \<and>
           name_counter_NumInterpErrors (handler r') ! 0 \<le>
             name_counter_NumInterpErrors (handler r) ! 0 + NumStd (levels_of calc n (handler r)) \<and>
           name_counter_NumAnyErrors (handler r') ! 0 \<le>
             name_counter_NumAnyErrors (handler r) ! 0 + NumStd (levels_of calc n (handler r))"
proof -
  let ?dh = "handler r" and ?sl = "levels_of calc n (handler r)"
  let ?fs = "failures_of opts fb calc n ?dh"
  have ns: "0 \<le> NumStd ?sl" using pre by (simp add: run_pre_def std_levels_ok_def)
  have "length ?fs \<le> nat (NumStd ?sl)"
    using length_filter_le [of _ "std_indices ?sl"] by (simp add: failures_of_def length_std_indices)
  then have fs: "int (length ?fs) \<le> NumStd ?sl" using ns by linarith
  have "count_list (participants ?sl ?fs) i \<le> 3 * length ?fs"
    using count_le_length [of "participants ?sl ?fs" i] by (simp add: length_participants)
  then have cnt: "int (count_list (participants ?sl ?fs) i) \<le> 3 * NumStd ?sl" using fs by linarith
  have ne: "0 < length (name_counter_NumAnyErrors ?dh)" "0 < length (name_counter_NumInterpErrors ?dh)"
    using pre by (auto simp: run_pre_def)
  obtain r' where r': "runCheck opts fb calc n r = Some r'"
    using runCheck_abstract [OF pre] by blast
  have lev: "m_LevErrors (check_obj r') ! i = -1 + int (count_list (participants ?sl ?fs) i)"
    using r' i by (auto simp: runCheck_abstract [OF pre] abstract_run_LevErrors)
  have ctr: "name_counter_NumAnyErrors (handler r') ! 0 = name_counter_NumAnyErrors ?dh ! 0 + int (length ?fs)"
      "name_counter_NumInterpErrors (handler r') ! 0 = name_counter_NumInterpErrors ?dh ! 0 + int (length ?fs)"
    using r' ne by (auto simp: runCheck_abstract [OF pre] abstract_run_counters [OF ne])
  show ?thesis using r' lev ctr cnt fs by auto
qed

lemma run_outcomes_all_Skipped:
  "\<forall>j\<in>set js. oc j = Skipped \<Longrightarrow> run_outcomes fb sl oc js st = st"
  by (induction js) (simp_all add: apply_outcome_def)

text \<open>C13. Sparse profiles: with fewer significant levels than \<open>max(3, NumStd/2)\<close> no
  standard level is evaluated; flags and counters are unchanged, every \<open>LevErrors_\<close>
  is -1 and every \<open>tInterp_\<close> the missing value.\<close>

theorem runCheck_sparse:
  assumes pre: "run_pre opts fb calc n (handler r)"
    and sparse: "NumSig (levels_of calc n (handler r)) < max 3 (NumStd (levels_of calc n (handler r)) sdiv 2)"
  shows "runCheck opts fb calc n r =
    Some (r\<lparr>check_obj := \<lparr>levels = levels_of calc n (handler r), m_LevErrors = replicate n (-1),
                              m_tInterp = replicate n missingValueFloat\<rparr>\<rparr>)"
proof -
  have sk: "\<forall>j\<in>set (std_indices (levels_of calc n (handler r))). outcomes_of opts fb calc n (handler r) j = Skipped"
    using sparse by (simp add: outcomes_of_def level_outcome_def Let_def)
  then have "abstract_run opts fb calc n (handler r) = init_state n (handler r)"
    by (simp add: abstract_run_def run_outcomes_all_Skipped)
  moreover have "failures_of opts fb calc n (handler r) = []"
    using sk by (simp add: failures_of_def)
  ultimately show ?thesis by (simp add: runCheck_abstract [OF pre] init_state_def)
qed

text \<open>C25. Frame and shape of a run: a run that returns either wrote only the flags and
  the three counters of the data handler, keeping their lengths, and sized
  \<open>LevErrors_\<close> and \<open>tInterp_\<close> by \<open>numLevelsToCheck\<close>; or it took an early return,
  changing nothing but appending one warning. This holds for every classifier and
  every input, valid or not.\<close>

theorem runCheck_frame:
  assumes run: "runCheck opts fb calc n r = Some r'"
  shows "(\<exists>fl c1 c2 c3. handler r' = (handler r)\<lparr>name_qc_tFlags := fl, name_counter_NumAnyErrors := c1,
              name_counter_NumInterpErrors := c2, name_counter_NumInterpErrObs := c3\<rparr> \<and>
            length fl = length (name_qc_tFlags (handler r)) \<and>
            length c1 = length (name_counter_NumAnyErrors (handler r)) \<and>
            length c2 = length (name_counter_NumInterpErrors (handler r)) \<and>
            length c3 = length (name_counter_NumInterpErrObs (handler r)) \<and>
            warnings r' = warnings r \<and>
            length (m_LevErrors (check_obj r')) = n \<and> length (m_tInterp (check_obj r')) = n)
         \<or> (handler r' = handler r \<and> check_obj r' = check_obj r \<and>
            warnings r' \<in> {warnings r @ [EmptyVector], warnings r @ [SizeMismatch]})"
proof (cases "anyVectorEmpty (name_air_pressure (handler r)) (name_obs_air_temperature (handler r))
          (name_hofx_air_temperature (handler r)) (name_qc_tFlags (handler r)) (name_tObsCorrection (handler r))
        \<or> \<not> allVectorsSameSize (name_air_pressure (handler r)) (name_obs_air_temperature (handler r))
          (name_hofx_air_temperature (handler r)) (name_qc_tFlags (handler r)) (name_tObsCorrection (handler r))")
  case True
  then show ?thesis using run by (auto simp: runCheck_def Let_def split: if_splits)
next
  case False
  define obs where "obs = (\<lambda>st :: interp_state. if NumErrors st > 0 then bump (name_counter_NumInterpErrObs (handler r)) 0
                                   else name_counter_NumInterpErrObs (handler r))"
  from False obtain st where loop: "interp_loop opts fb (levels_of calc n (handler r))
      (name_air_pressure (handler r)) (tObsFinal_of (handler r))
      [0..NumStd (levels_of calc n (handler r)) - 1] (init_state n (handler r)) = Some st"
    and r': "r' = r\<lparr>handler := (handler r)\<lparr>name_qc_tFlags := tFlags st,
                  name_counter_NumAnyErrors := NumAnyErrors st,
                  name_counter_NumInterpErrors := NumInterpErrors st,
                  name_counter_NumInterpErrObs := obs st\<rparr>,
                check_obj := \<lparr>levels = levels_of calc n (handler r), m_LevErrors = LevErrors st,
                  m_tInterp = tInterp st\<rparr>\<rparr>"
    using run
    by (auto simp: runCheck_def Let_def bind_eq_Some_conv levels_of_def tObsFinal_of_def init_state_def
        vmodify_def bump_def obs_def interp_for_loop split: if_splits)
  have "state_dims st = state_dims (init_state n (handler r))" using interp_loop_dims [OF loop] .
  moreover have "length (obs st) = length (name_counter_NumInterpErrObs (handler r))"
    by (simp add: obs_def bump_def)
  ultimately show ?thesis
    by (rule_tac disjI1, rule_tac x = "tFlags st" in exI, rule_tac x = "NumAnyErrors st" in exI,
        rule_tac x = "NumInterpErrors st" in exI, rule_tac x = "obs st" in exI)
       (simp add: r' state_dims_def)
qed

text \<open>The inputs a second run reads from the handler a first run returned.\<close>

lemma runCheck_handler_inputs:
  assumes pre: "run_pre opts fb calc n (handler r)" and run: "runCheck opts fb calc n r = Some r'"
  shows "name_air_pressure (handler r') = name_air_pressure (handler r)"
    and "tObsFinal_of (handler r') = tObsFinal_of (handler r)"
    and "name_qc_tFlags (handler r') = tFlags (abstract_run opts fb calc n (handler r))"
    and "name_counter_NumInterpErrors (handler r') = NumInterpErrors (abstract_run opts fb calc n (handler r))"
    and "m_LevErrors (check_obj r') = LevErrors (abstract_run opts fb calc n (handler r))"
    and "m_tInterp (check_obj r') = tInterp (abstract_run opts fb calc n (handler r))"
  using run by (auto simp: runCheck_abstract [OF pre] tObsFinal_of_def)

lemma abstract_run_lengths:
  "length (tFlags (abstract_run opts fb calc n dh)) = length (name_qc_tFlags dh)"
  "length (NumAnyErrors (abstract_run opts fb calc n dh)) = length (name_counter_NumAnyErrors dh)"
  "length (NumInterpErrors (abstract_run opts fb calc n dh)) = length (name_counter_NumInterpErrors dh)"
  by (simp_all add: abstract_run_def)

lemma run_pre_rerun:
  assumes pre: "run_pre opts fb calc n (handler r)" and run: "runCheck opts fb calc n r = Some r'"
    and same: "levels_of calc n (handler r') = levels_of calc n (handler r)"
  shows "run_pre opts fb calc n (handler r')"
proof -
  let ?A = "abstract_run opts fb calc n (handler r)"
  have h: "handler r' = (handler r)\<lparr>name_qc_tFlags := tFlags ?A,
      name_counter_NumAnyErrors := NumAnyErrors ?A, name_counter_NumInterpErrors := NumInterpErrors ?A,
      name_counter_NumInterpErrObs := (if failures_of opts fb calc n (handler r) = []
         then name_counter_NumInterpErrObs (handler r) else bump (name_counter_NumInterpErrObs (handler r)) 0)\<rparr>"
    using run by (auto simp: runCheck_abstract [OF pre])
  have "length (if failures_of opts fb calc n (handler r) = [] then name_counter_NumInterpErrObs (handler r)
      else bump (name_counter_NumInterpErrObs (handler r)) 0) = length (name_counter_NumInterpErrObs (handler r))"
    by (simp add: bump_def)
  with pre same show ?thesis
    unfolding run_pre_def inputs_valid_def anyVectorEmpty_def allVectorsSameSize_def
    by (simp add: h abstract_run_lengths flip: length_greater_0_conv)
qed

lemma outcomes_rerun:
  assumes pre: "run_pre opts fb calc n (handler r)" and run: "runCheck opts fb calc n r = Some r'"
    and same: "levels_of calc n (handler r') = levels_of calc n (handler r)"
    and j: "j \<in> set (std_indices (levels_of calc n (handler r)))"
  shows "outcomes_of opts fb calc n (handler r') j = outcomes_of opts fb calc n (handler r) j"
proof -
  let ?sl = "levels_of calc n (handler r)"
  have ok: "std_levels_ok n ?sl" and bits: "SurfaceLevelFlag fb AND InterpolationFlag fb = 0"
    and sz: "n \<le> length (name_qc_tFlags (handler r))"
    using pre by (auto simp: run_pre_def inputs_valid_def allVectorsSameSize_def)
  from j have "0 \<le> j" "j < NumStd ?sl" by (auto simp: std_indices_def)
  with ok have "std_level_ok n ?sl (nat j)" by (rule std_levels_okD)
  with sz have k: "nat (StdLev ?sl ! nat j) < length (name_qc_tFlags (handler r))"
    by (auto simp: std_level_ok_def)
  have "InterpolationFlag fb AND SurfaceLevelFlag fb = 0" using bits by (simp add: and.commute)
  then have "map (\<lambda>x. x AND SurfaceLevelFlag fb) (tFlags (abstract_run opts fb calc n (handler r))) =
             map (\<lambda>x. x AND SurfaceLevelFlag fb) (name_qc_tFlags (handler r))"
    by (simp add: abstract_run_def run_outcomes_mask)
  moreover have "nat (StdLev ?sl ! nat j) < length (tFlags (abstract_run opts fb calc n (handler r)))"
    using k by (simp add: abstract_run_lengths)
  ultimately have "level_outcome opts fb ?sl (name_air_pressure (handler r)) (tObsFinal_of (handler r))
        (tFlags (abstract_run opts fb calc n (handler r))) j =
      level_outcome opts fb ?sl (name_air_pressure (handler r)) (tObsFinal_of (handler r))
        (name_qc_tFlags (handler r)) j"
    by (intro level_outcome_mask_cong)
  then show ?thesis
    unfolding outcomes_of_def same runCheck_handler_inputs(1-3) [OF pre run] .
qed

text \<open>C28. Re-running the check on its own output: if the classifier returns the same
  classification for the flagged profile, a second run reaches the same decisions
  (the interpolation bit is invisible to the surface test), so flags, \<open>LevErrors_\<close>
  and \<open>tInterp_\<close> are unchanged: the check is idempotent on them. The counters are
  not: \<open>NumInterpErrors\<close> grows again by the same number of failures.\<close>

theorem runCheck_rerun:
  assumes pre: "run_pre opts fb calc n (handler r)" and run: "runCheck opts fb calc n r = Some r'"
    and same: "levels_of calc n (handler r') = levels_of calc n (handler r)"
  shows "\<exists>r''. runCheck opts fb calc n r' = Some r'' \<and>
           name_qc_tFlags (handler r'') = name_qc_tFlags (handler r') \<and>
           m_LevErrors (check_obj r'') = m_LevErrors (check_obj r') \<and>
           m_tInterp (check_obj r'') = m_tInterp (check_obj r') \<and>
           name_counter_NumInterpErrors (handler r'') ! 0 - name_counter_NumInterpErrors (handler r') ! 0 =
           name_counter_NumInterpErrors (handler r') ! 0 - name_counter_NumInterpErrors (handler r) ! 0"
proof -
  let ?dh = "handler r" and ?dh' = "handler r'" and ?sl = "levels_of calc n (handler r)"
  let ?oc = "outcomes_of opts fb calc n ?dh"
  have pre': "run_pre opts fb calc n ?dh'" using run_pre_rerun [OF pre run same] .
  have oc: "\<forall>j\<in>set (std_indices ?sl). outcomes_of opts fb calc n ?dh' j = ?oc j"
    using outcomes_rerun [OF pre run same] by blast
  then have A': "abstract_run opts fb calc n ?dh' = run_outcomes fb ?sl ?oc (std_indices ?sl) (init_state n ?dh')"
    unfolding abstract_run_def same by (rule run_outcomes_cong)
  have fl: "failures_of opts fb calc n ?dh' = failures_of opts fb calc n ?dh"
    using oc unfolding failures_of_def same by (auto intro: filter_cong)
  have ne: "0 < length (name_counter_NumAnyErrors ?dh)" "0 < length (name_counter_NumInterpErrors ?dh)"
    "0 < length (name_counter_NumAnyErrors ?dh')" "0 < length (name_counter_NumInterpErrors ?dh')"
    using pre pre' by (auto simp: run_pre_def)
  obtain r'' where run': "runCheck opts fb calc n r' = Some r''"
    using runCheck_abstract [OF pre'] by blast
  have i1: "name_qc_tFlags ?dh' = tFlags (abstract_run opts fb calc n ?dh)"
    "m_LevErrors (check_obj r') = LevErrors (abstract_run opts fb calc n ?dh)"
    "m_tInterp (check_obj r') = tInterp (abstract_run opts fb calc n ?dh)"
    "name_counter_NumInterpErrors ?dh' = NumInterpErrors (abstract_run opts fb calc n ?dh)"
    using runCheck_handler_inputs [OF pre run] by simp_all
  have i2: "name_qc_tFlags (handler r'') = tFlags (abstract_run opts fb calc n ?dh')"
    "m_LevErrors (check_obj r'') = LevErrors (abstract_run opts fb calc n ?dh')"
    "m_tInterp (check_obj r'') = tInterp (abstract_run opts fb calc n ?dh')"
    "name_counter_NumInterpErrors (handler r'') = NumInterpErrors (abstract_run opts fb calc n ?dh')"
    using runCheck_handler_inputs [OF pre' run'] by simp_all
  have "tFlags (run_outcomes fb ?sl ?oc (std_indices ?sl) (init_state n ?dh')) = tFlags (init_state n ?dh')"
    by (rule run_outcomes_tFlags_idem) (simp add: i1 abstract_run_def)
  then have "tFlags (abstract_run opts fb calc n ?dh') = name_qc_tFlags ?dh'" by (simp add: A')
  moreover have "LevErrors (abstract_run opts fb calc n ?dh') = LevErrors (abstract_run opts fb calc n ?dh)"
    unfolding A' unfolding abstract_run_def by (rule run_outcomes_LevErrors_cong) (simp add: init_state_def)
  moreover have "tInterp (abstract_run opts fb calc n ?dh') = tInterp (abstract_run opts fb calc n ?dh)"
    unfolding A' unfolding abstract_run_def by (rule run_outcomes_tInterp_cong) (simp add: init_state_def)
  moreover have "NumInterpErrors (abstract_run opts fb calc n ?dh') ! 0 - name_counter_NumInterpErrors ?dh' ! 0 =
      name_counter_NumInterpErrors ?dh' ! 0 - name_counter_NumInterpErrors ?dh ! 0"
    using abstract_run_counters(2) [OF ne(3,4), of opts fb calc] abstract_run_counters(2) [OF ne(1,2), of opts fb calc]
      ne i1(4) fl by simp
  ultimately show ?thesis using run' i1 i2 by auto
qed

end
