(* ===== verification/ObsOperator.thy ===== *)
theory ObsOperator
  imports Prelude
begin

text \<open>
  \<open>ufo::ObsOperator\<close> (\<open>src/src/ufo/ObsOperator.cc\<close>): a wrapper that holds the
  operator the factory built (\<open>oper_\<close>) and a reference to the observation space
  (\<open>odb_\<close>). \<open>simulateObs\<close> runs the operator and, when a bias object is active,
  computes the bias predictors from the geovals and the diagnostics the operator has
  just written, computes the bias and the predictor terms, and saves the three into
  the observation space under the groups \<open>ObsBiasPredictor\<close>, \<open>ObsBiasTerm\<close> and
  \<open>ObsBias\<close>. The method is \<open>const\<close> but writes through the reference \<open>odb_\<close>, so the
  model returns the updated space. The constructor takes the operator from the
  factory; \<open>variables\<close> and \<open>print\<close> forward to it.

  The operator (\<open>ObsOperatorBase\<close>), the bias (\<open>ObsBias\<close>) and the ioda containers are
  libraries the file only calls; they are records of functions here, and every
  theorem holds for all of them. An \<open>ObsVector\<close> or \<open>ObsDataVector\<close> is a list of
  (variable, column) pairs in variable order; \<open>save\<close> writes each column into the
  space under (group, variable), as ioda's \<open>save\<close> does.
\<close>

type_synonym datavec = "(string \<times> real list) list"
type_synonym obs_store = "string \<times> string \<Rightarrow> real list option"

text \<open>The observation space: its simulated variables, the initial contents of the
  containers its constructors build, and the stored columns.\<close>

record obs_space =
  obs_vars :: "string list"
  new_obs_vector :: datavec
  new_data_vector :: "string list \<Rightarrow> datavec"
  obs_db :: obs_store

text \<open>The operator the factory builds (\<open>ObsOperatorBase\<close>): its simulation, the variables it
  needs from the model, and what \<open>operator<<\<close> prints for it.\<close>

record ('g, 'd) obs_operator_base =
  op_simulateObs :: "'g \<Rightarrow> datavec \<Rightarrow> 'd \<Rightarrow> datavec \<times> 'd"
  op_variables :: "string list"
  op_print :: string

text \<open>The bias interface: \<open>operator bool\<close>, \<open>predNames\<close>, and the two computations;
  \<open>computeObsBias\<close> returns the bias vector and the predictor terms it fills.\<close>

record ('g, 'd) obs_bias =
  bias_active :: bool
  predNames :: "string list"
  computeObsBiasPredictors :: "'g \<Rightarrow> 'd \<Rightarrow> datavec \<Rightarrow> datavec"
  computeObsBias :: "datavec \<Rightarrow> datavec \<Rightarrow> datavec \<Rightarrow> datavec \<times> datavec"

text \<open>Lines 25--27: the members \<open>oper_\<close> and \<open>odb_\<close>.\<close>

record ('g, 'd) obs_operator =
  oper :: "('g, 'd) obs_operator_base"
  odb :: obs_space

text \<open>Lines 25--27: the constructor asks the factory for the operator named in the
  configuration and keeps the space.\<close>

definition ObsOperator_new ::
  "(obs_space \<Rightarrow> 'c \<Rightarrow> ('g, 'd) obs_operator_base) \<Rightarrow> obs_space \<Rightarrow> 'c \<Rightarrow> ('g, 'd) obs_operator" where
  "ObsOperator_new create os conf = \<lparr>oper = create os conf, odb = os\<rparr>"

text \<open>Lines 52--54 and 65--67: \<open>variables\<close> and \<open>print\<close> forward to the operator.\<close>

definition variables :: "('g, 'd) obs_operator \<Rightarrow> string list" where
  "variables self = op_variables (oper self)"

definition print :: "('g, 'd) obs_operator \<Rightarrow> string" where
  "print self = op_print (oper self)"

definition save :: "string \<Rightarrow> datavec \<Rightarrow> obs_space \<Rightarrow> obs_space" where
  "save grp dv os = os\<lparr>obs_db := fold (\<lambda>(v, xs) db. db((grp, v) \<mapsto> xs)) dv (obs_db os)\<rparr>"

text \<open>Lines 35--48. The result is the simulated vector, the diagnostics and the space.\<close>

definition simulateObs ::
  "('g, 'd) obs_operator \<Rightarrow> 'g \<Rightarrow> datavec \<Rightarrow> ('g, 'd) obs_bias \<Rightarrow> 'd \<Rightarrow>
   datavec \<times> 'd \<times> obs_space" where
  "simulateObs self gvals yy bias ydiags =
     (case op_simulateObs (oper self) gvals yy ydiags of (yy', ydiags') \<Rightarrow>
      if bias_active bias then
        (let os = odb self;
             ybias = new_obs_vector os;
             predictors = new_data_vector os (predNames bias);
             predTerms = new_data_vector os (predNames bias);
             predictors' = computeObsBiasPredictors bias gvals ydiags' predictors;
             os1 = save ''ObsBiasPredictor'' predictors' os
         in case computeObsBias bias ybias predictors' predTerms of (ybias', predTerms') \<Rightarrow>
              (let os2 = save ''ObsBiasTerm'' predTerms' os1;
                   os3 = save ''ObsBias'' ybias' os2
               in (yy', ydiags', os3)))
      else (yy', ydiags', odb self))"

subsection \<open>Saving into the observation space\<close>

lemma map_of_rev_None_iff: "map_of (rev dv) w = None \<longleftrightarrow> w \<notin> set (map fst dv)"
  by (simp add: map_of_eq_None_iff)

lemma map_of_rev_snoc:
  "map_of (rev dv @ [(v, x)]) w = (if w \<in> set (map fst dv) then map_of (rev dv) w
                                  else if w = v then Some x else None)"
proof (cases "map_of (rev dv) w")
  case None
  then show ?thesis using map_of_rev_None_iff [of dv w] by (simp add: map_of_append map_add_def)
next
  case (Some y)
  then show ?thesis using map_of_rev_None_iff [of dv w] by (simp add: map_of_append map_add_def)
qed

lemma fold_upd_lookup:
  "fold (\<lambda>(v, xs) db. db((grp, v) \<mapsto> xs)) dv db (g, w) =
     (if g = grp \<and> w \<in> set (map fst dv) then map_of (rev dv) w else db (g, w))"
proof (induction dv arbitrary: db)
  case Nil
  then show ?case by simp
next
  case (Cons a dv)
  obtain v x where a: "a = (v, x)" by fastforce
  show ?case using Cons [of "db((grp, v) \<mapsto> x)"] by (auto simp del: map_of_append simp add: a map_of_rev_snoc)
qed
lemma save_lookup:
  "obs_db (save grp dv os) (g, w) =
     (if g = grp \<and> w \<in> set (map fst dv) then map_of (rev dv) w else obs_db os (g, w))"
  by (simp add: save_def fold_upd_lookup)

lemma save_other [simp]: "obs_vars (save grp dv os) = obs_vars os"
  "new_obs_vector (save grp dv os) = new_obs_vector os"
  "new_data_vector (save grp dv os) = new_data_vector os"
  by (simp_all add: save_def)

subsection \<open>simulateObs\<close>

text \<open>C22. The bias branch of \<open>simulateObs\<close> never touches the simulated values: with
  or without an active bias, \<open>yy\<close> and the diagnostics are exactly what the operator
  produced; the bias is only saved into the observation space.\<close>

theorem simulateObs_values:
  "fst (simulateObs self gvals yy bias ydiags) = fst (op_simulateObs (oper self) gvals yy ydiags) \<and>
   fst (snd (simulateObs self gvals yy bias ydiags)) = snd (op_simulateObs (oper self) gvals yy ydiags)"
  by (simp add: simulateObs_def Let_def split: prod.split)

text \<open>Without an active bias \<open>simulateObs\<close> leaves the observation space as it was.\<close>

lemma simulateObs_no_bias:
  "\<not> bias_active bias \<Longrightarrow> snd (snd (simulateObs self gvals yy bias ydiags)) = odb self"
  by (simp add: simulateObs_def split: prod.split)

text \<open>C24. With an active bias, after \<open>simulateObs\<close> the space holds under
  \<open>ObsBiasPredictor\<close> the predictors computed from the geovals and the diagnostics
  the operator has just produced, under \<open>ObsBiasTerm\<close> and \<open>ObsBias\<close> the predictor
  terms and the bias \<open>computeObsBias\<close> returned for them (the last column of a
  repeated variable winning), and is unchanged elsewhere.\<close>

theorem simulateObs_bias_store:
  assumes on: "bias_active bias"
    and op: "op_simulateObs (oper self) gvals yy ydiags = (yy', ydiags')"
    and P: "P = computeObsBiasPredictors bias gvals ydiags' (new_data_vector (odb self) (predNames bias))"
    and BT: "computeObsBias bias (new_obs_vector (odb self)) P (new_data_vector (odb self) (predNames bias)) = (B, T)"
  shows "obs_db (snd (snd (simulateObs self gvals yy bias ydiags))) (g, w) =
     (if g = ''ObsBias'' \<and> w \<in> set (map fst B) then map_of (rev B) w
      else if g = ''ObsBiasTerm'' \<and> w \<in> set (map fst T) then map_of (rev T) w
      else if g = ''ObsBiasPredictor'' \<and> w \<in> set (map fst P) then map_of (rev P) w
      else obs_db (odb self) (g, w))"
  using on op BT by (simp add: simulateObs_def Let_def P [symmetric] save_lookup)

end
