(* ===== verification/LoopSteps.thy ===== *)
theory LoopSteps
  imports InterpLevel
begin

text \<open>
  The standard-level loop of \<open>runCheck\<close> (\<open>src/unnamed/part_000\<close>, lines 69--139) as
  a transition system. A state is the counter \<open>jlevstd\<close> with the loop state; one
  step is one iteration, taken while the counter is below \<open>NumStd_\<close> and the
  iteration performs no out-of-range access. A state whose counter has reached
  \<open>NumStd_\<close> is the loop's exit; a state with a smaller counter and no step is an
  iteration with undefined behaviour. The runs of the relation are the runs of the
  counter loop \<open>interp_for\<close>, and the lemmas here state what holds along every run
  (rule induction) and that the exit is reached. The last theorem composes the
  failure bookkeeping with a later iteration: if the interpolation and surface bits
  overlapped, a level that took part in a failure would be skipped as a surface
  level.
\<close>

inductive loop_step ::
  "interp_options \<Rightarrow> flag_bits \<Rightarrow> std_levels \<Rightarrow> real list \<Rightarrow> real list \<Rightarrow>
   int \<times> interp_state \<Rightarrow> int \<times> interp_state \<Rightarrow> bool"
  for opts fb sl p t where
  iter: "j < NumStd sl \<Longrightarrow> check_level opts fb sl p t j st = Some st' \<Longrightarrow>
         loop_step opts fb sl p t (j, st) (j + 1, st')"

inductive_cases loop_stepE: "loop_step opts fb sl p t (j, st) s"

subsection \<open>One iteration's effect on the flags and the error tally\<close>

lemma vmodify_or_mask:
  "vmodify (\<lambda>f. f OR b) xs i = Some ys \<Longrightarrow> (b :: int) AND m = 0 \<Longrightarrow>
   map (\<lambda>x. x AND m) ys = map (\<lambda>x. x AND m) xs"
  by (auto simp: vmodify_def nth_list_update or_and_disjoint intro!: nth_equalityI split: if_splits)

lemma record_failure_mask:
  "record_failure fb jlev SigB SigA tI st = Some st' \<Longrightarrow> InterpolationFlag fb AND m = 0 \<Longrightarrow>
   map (\<lambda>x. x AND m) (tFlags st') = map (\<lambda>x. x AND m) (tFlags st)"
  by (auto simp: record_failure_def bind_eq_Some_conv dest!: vmodify_or_mask)

lemma record_failure_marks:
  assumes rf: "record_failure fb jlev SigB SigA tI st = Some st'" and k: "k \<in> {jlev, SigB, SigA}"
  shows "0 \<le> k \<and> nat k < length (tFlags st') \<and> (tFlags st' ! nat k) AND InterpolationFlag fb = InterpolationFlag fb"
proof -
  obtain f1 f2 where f1: "vmodify (\<lambda>f. f OR InterpolationFlag fb) (tFlags st) jlev = Some f1"
    and f2: "vmodify (\<lambda>f. f OR InterpolationFlag fb) f1 SigB = Some f2"
    and f3: "vmodify (\<lambda>f. f OR InterpolationFlag fb) f2 SigA = Some (tFlags st')"
    using rf by (auto simp: record_failure_def bind_eq_Some_conv)
  note len = vmodify_length [OF f2] vmodify_length [OF f3]
  show ?thesis
  proof (cases "k = SigA")
    case True with vmodify_or_sets [OF f3] show ?thesis by simp
  next
    case nA: False
    show ?thesis
    proof (cases "k = SigB")
      case True with vmodify_or_sets [OF f2] vmodify_or_keeps [OF f3] len show ?thesis by simp
    next
      case False
      with nA k have "k = jlev" by simp
      with vmodify_or_sets [OF f1] vmodify_or_keeps [OF f2] vmodify_or_keeps [OF f3] len
      show ?thesis by simp
    qed
  qed
qed

lemma record_failure_NumErrors:
  "record_failure fb jlev SigB SigA tI st = Some st' \<Longrightarrow> NumErrors st' = NumErrors st + 1"
  by (auto simp: record_failure_def bind_eq_Some_conv)

lemma interp_test_effect:
  "interp_test opts fb sl t jlev SigB SigA PStd lB lA st = Some st' \<Longrightarrow> InterpolationFlag fb AND m = 0 \<Longrightarrow>
   map (\<lambda>x. x AND m) (tFlags st') = map (\<lambda>x. x AND m) (tFlags st) \<and>
   NumErrors st \<le> NumErrors st' \<and> NumErrors st' \<le> NumErrors st + 1"
  by (auto simp: interp_test_def Let_def bind_eq_Some_conv split: if_splits
      dest: record_failure_mask record_failure_NumErrors)

lemma check_level_effect:
  "check_level opts fb sl p t j st = Some st' \<Longrightarrow> InterpolationFlag fb AND m = 0 \<Longrightarrow>
   map (\<lambda>x. x AND m) (tFlags st') = map (\<lambda>x. x AND m) (tFlags st) \<and>
   NumErrors st \<le> NumErrors st' \<and> NumErrors st' \<le> NumErrors st + 1"
  by (auto simp: check_level_def Let_def bind_eq_Some_conv split: if_splits dest: interp_test_effect)

subsection \<open>Runs of the relation and of the counter loop\<close>

lemma loop_step_det:
  "loop_step opts fb sl p t s s' \<Longrightarrow> loop_step opts fb sl p t s s'' \<Longrightarrow> s'' = s'"
  by (auto elim!: loop_step.cases)

lemma interp_for_steps:
  "interp_for opts fb sl p t j st = Some st' \<Longrightarrow>
   (loop_step opts fb sl p t)\<^sup>*\<^sup>* (j, st) (max j (NumStd sl), st')"
proof (induction opts fb sl p t j st rule: interp_for.induct)
  case (1 opts fb sl p t j st)
  show ?case
  proof (cases "j < NumStd sl")
    case True
    with "1.prems" obtain st1 where c: "check_level opts fb sl p t j st = Some st1"
      and r: "interp_for opts fb sl p t (j + 1) st1 = Some st'"
      by (auto simp: interp_for.simps [of opts fb sl p t j st] split: option.splits)
    have "(loop_step opts fb sl p t)\<^sup>*\<^sup>* (j + 1, st1) (max (j + 1) (NumStd sl), st')"
      using "1.IH" [OF True c] r .
    moreover have "max (j + 1) (NumStd sl) = max j (NumStd sl)" using True by simp
    ultimately show ?thesis
      using loop_step.iter [OF True c] by (metis converse_rtranclp_into_rtranclp)
  next
    case False
    with "1.prems" show ?thesis by (simp add: interp_for.simps [of opts fb sl p t j st])
  qed
qed

lemma steps_interp_for:
  "(loop_step opts fb sl p t)\<^sup>*\<^sup>* s s' \<Longrightarrow>
   interp_for opts fb sl p t (fst s) (snd s) = interp_for opts fb sl p t (fst s') (snd s')"
proof (induction rule: rtranclp_induct)
  case (step y z)
  from step.hyps(2) obtain j st st' where y: "y = (j, st)" "z = (j + 1, st')"
    and j: "j < NumStd sl" and c: "check_level opts fb sl p t j st = Some st'"
    by (cases rule: loop_step.cases) auto
  from j c have "interp_for opts fb sl p t j st = interp_for opts fb sl p t (j + 1) st'"
    by (simp add: interp_for.simps [of opts fb sl p t j st])
  with step.IH y show ?case by simp
qed simp

lemma interp_for_visits:
  "interp_for opts fb sl p t j st = Some st' \<Longrightarrow> j \<le> k \<Longrightarrow> k \<le> max j (NumStd sl) \<Longrightarrow>
   \<exists>st''. (loop_step opts fb sl p t)\<^sup>*\<^sup>* (j, st) (k, st'')"
proof (induction opts fb sl p t j st arbitrary: k rule: interp_for.induct)
  case (1 opts fb sl p t j st)
  show ?case
  proof (cases "k = j")
    case False
    with "1.prems"(2,3) have j: "j < NumStd sl" and k: "j + 1 \<le> k" "k \<le> max (j + 1) (NumStd sl)" by auto
    with "1.prems"(1) obtain st1 where c: "check_level opts fb sl p t j st = Some st1"
      and r: "interp_for opts fb sl p t (j + 1) st1 = Some st'"
      by (auto simp: interp_for.simps [of opts fb sl p t j st] split: option.splits)
    from "1.IH" [OF j c r k] obtain st'' where "(loop_step opts fb sl p t)\<^sup>*\<^sup>* (j + 1, st1) (k, st'')" ..
    then show ?thesis using loop_step.iter [OF j c] by (metis converse_rtranclp_into_rtranclp)
  qed auto
qed

lemma loop_exit_final: "NumStd sl \<le> j \<Longrightarrow> \<not> loop_step opts fb sl p t (j, st) s"
  by (auto elim: loop_stepE)

lemma interp_for_from_contract:
  assumes "inputs_ok n opts sl p t" and "dims_ok n st"
    and "SurfaceLevelFlag fb AND InterpolationFlag fb = 0" and "std_levels_ok n sl"
  shows "\<exists>st'. interp_for opts fb sl p t 0 st = Some st'"
proof -
  have "\<forall>j\<in>set [0..NumStd sl - 1]. 0 \<le> j \<and> std_level_ok n sl (nat j)"
    using assms(4) by (auto intro: std_levels_okD(1))
  with assms(1-3) show ?thesis by (simp add: interp_for_loop interp_loop_eq_run)
qed

subsection \<open>Liveness and invariant\<close>

text \<open>Liveness of the loop: for a classification that meets its contract, inputs
  and state of matching sizes and disjoint flag bits, the run from \<open>jlevstd = 0\<close>
  reaches the iteration of every standard level, and reaches the exit
  \<open>jlevstd = NumStd_\<close>, where no further step is possible; it is never stuck in an
  iteration with undefined behaviour.\<close>

lemma loop_reaches_exit:
  assumes "inputs_ok n opts sl p t" and "dims_ok n st"
    and "SurfaceLevelFlag fb AND InterpolationFlag fb = 0" and "std_levels_ok n sl"
  shows "(\<forall>k. 0 \<le> k \<and> k < NumStd sl \<longrightarrow> (\<exists>st''. (loop_step opts fb sl p t)\<^sup>*\<^sup>* (0, st) (k, st''))) \<and>
         (\<exists>st'. (loop_step opts fb sl p t)\<^sup>*\<^sup>* (0, st) (max 0 (NumStd sl), st') \<and>
                (\<forall>s. \<not> loop_step opts fb sl p t (max 0 (NumStd sl), st') s))"
proof -
  obtain st' where r: "interp_for opts fb sl p t 0 st = Some st'"
    using interp_for_from_contract [OF assms] ..
  have "\<exists>st''. (loop_step opts fb sl p t)\<^sup>*\<^sup>* (0, st) (k, st'')" if "0 \<le> k" "k < NumStd sl" for k
    using interp_for_visits [OF r] that by simp
  moreover have "(loop_step opts fb sl p t)\<^sup>*\<^sup>* (0, st) (max 0 (NumStd sl), st')"
    using interp_for_steps [OF r] .
  ultimately show ?thesis using loop_exit_final [of sl "max 0 (NumStd sl)"] by auto
qed

text \<open>C30. Invariant of every reachable state, by rule induction on the run: the
  counter stays within \<open>[0, NumStd_]\<close>, every vector keeps its length, no iteration
  changes a surface bit (so no level becomes a surface level during the loop), and the
  local error tally \<open>NumErrors\<close> grows by at most one per iteration.\<close>

theorem loop_reachable_inv:
  assumes bits: "SurfaceLevelFlag fb AND InterpolationFlag fb = 0"
    and reach: "(loop_step opts fb sl p t)\<^sup>*\<^sup>* (0, st) (j, st')"
  shows "0 \<le> j \<and> j \<le> max 0 (NumStd sl) \<and> state_dims st' = state_dims st \<and>
         map (\<lambda>x. x AND SurfaceLevelFlag fb) (tFlags st') = map (\<lambda>x. x AND SurfaceLevelFlag fb) (tFlags st) \<and>
         NumErrors st \<le> NumErrors st' \<and> NumErrors st' \<le> NumErrors st + j"
  using reach
proof (induction rule: rtranclp_induct2)
  case (step j1 st1 j2 st2)
  from step.hyps(2) have j: "j1 < NumStd sl" and j2: "j2 = j1 + 1"
    and c: "check_level opts fb sl p t j1 st1 = Some st2"
    by (auto elim: loop_step.cases)
  have ib: "InterpolationFlag fb AND SurfaceLevelFlag fb = 0" using bits by (simp add: and.commute)
  from check_level_effect [OF c ib] check_level_dims [OF c] step.IH j j2 show ?case by auto
qed simp

text \<open>C26. The loop reads the flags that earlier failures have modified: if the
  interpolation flag shared a bit with the surface flag, every level that took part in
  a failure (central level or either bracket) would afterwards look like a surface
  level, and an iteration whose standard level is one of them would skip it without
  any test. This is why the refinement and order independence need disjoint bits.\<close>

theorem overlapping_bits_skip_participants:
  assumes ov: "InterpolationFlag fb AND SurfaceLevelFlag fb \<noteq> 0"
    and rf: "record_failure fb jlev SigB SigA tI st = Some st'"
    and k: "vget (StdLev sl) j = Some k" and kin: "k \<in> {jlev, SigB, SigA}"
  shows "check_level opts fb sl p t j st' = Some st'"
proof -
  from record_failure_marks [OF rf kin]
  have r: "0 \<le> k" "nat k < length (tFlags st')"
    and m: "(tFlags st' ! nat k) AND InterpolationFlag fb = InterpolationFlag fb" by auto
  have "(tFlags st' ! nat k) AND SurfaceLevelFlag fb \<noteq> 0" using and_overlap_nonzero [OF m ov] .
  with r k show ?thesis by (simp add: check_level_def vget_in)
qed

end
