(* ===== verification/CheckFactory.thy ===== *)
theory CheckFactory
  imports ProfileCheckInterpolation
begin

text \<open>
  How a check object comes to exist. Lines 13--14 of \<open>src/unnamed/part_000\<close> register
  a maker for \<open>ProfileCheckInterpolation\<close> under the name \<open>Interpolation\<close> in the
  profile-check factory; the factory later builds a check from its name. The
  constructor (lines 16--23) passes its arguments to the base classes: the data
  handler the check will read and write, and the options from which
  \<open>ProfileStandardLevels\<close> builds its initial members; the members \<open>LevErrors_\<close> and
  \<open>tInterp_\<close> start as empty vectors and no warning has been logged.

  The factory itself (\<open>ProfileCheckFactory\<close>) is not under \<open>src/\<close>; it is modelled as
  a map from names to makers, with an unknown name an error value. The
  constructor of \<open>ProfileStandardLevels\<close> is a parameter \<open>stdlev\<close>.
\<close>

type_synonym check_ctor = "interp_options \<Rightarrow> profile_data \<Rightarrow> check_run"
type_synonym check_makers = "string \<Rightarrow> check_ctor option"

datatype factory_error = UnknownCheck string

text \<open>Lines 16--23.\<close>

definition ProfileCheckInterpolation_new ::
  "(interp_options \<Rightarrow> std_levels) \<Rightarrow> interp_options \<Rightarrow> profile_data \<Rightarrow> check_run" where
  "ProfileCheckInterpolation_new stdlev opts dh =
     \<lparr>handler = dh, check_obj = \<lparr>levels = stdlev opts, m_LevErrors = [], m_tInterp = []\<rparr>,
      warnings = []\<rparr>"

text \<open>Lines 13--14: the static maker registers the constructor under its name.\<close>

definition makerProfileCheckInterpolation ::
  "(interp_options \<Rightarrow> std_levels) \<Rightarrow> check_makers \<Rightarrow> check_makers" where
  "makerProfileCheckInterpolation stdlev makers =
     makers(''Interpolation'' \<mapsto> ProfileCheckInterpolation_new stdlev)"

text \<open>The factory's \<open>create\<close>: the maker registered under the name, or an error.\<close>

definition ProfileCheckFactory_create ::
  "check_makers \<Rightarrow> string \<Rightarrow> interp_options \<Rightarrow> profile_data \<Rightarrow> factory_error + check_run" where
  "ProfileCheckFactory_create makers name opts dh =
     (case makers name of None \<Rightarrow> Inl (UnknownCheck name) | Some mk \<Rightarrow> Inr (mk opts dh))"

text \<open>Register and create: after the static registration, creating
  \<open>Interpolation\<close> yields a freshly constructed check on the given handler (no
  \<open>LevErrors_\<close>, no \<open>tInterp_\<close>, no warning); every other name resolves as it did before
  the registration.\<close>

lemma factory_register_create:
  "ProfileCheckFactory_create (makerProfileCheckInterpolation stdlev makers) ''Interpolation'' opts dh =
     Inr \<lparr>handler = dh, check_obj = \<lparr>levels = stdlev opts, m_LevErrors = [], m_tInterp = []\<rparr>,
          warnings = []\<rparr> \<and>
   (name \<noteq> ''Interpolation'' \<longrightarrow>
      ProfileCheckFactory_create (makerProfileCheckInterpolation stdlev makers) name opts dh =
      ProfileCheckFactory_create makers name opts dh)"
  by (simp add: ProfileCheckFactory_create_def makerProfileCheckInterpolation_def
      ProfileCheckInterpolation_new_def)

text \<open>C31. A check created by the factory whose first profile has an empty vector
  returns early, and \<open>fillValidator\<close> then publishes \<open>LevErrors_\<close> and \<open>tInterp_\<close> with
  no entries at all: what it publishes is not well formed for any profile with
  levels.\<close>

theorem fresh_check_early_return_publishes_empty:
  assumes create: "ProfileCheckFactory_create (makerProfileCheckInterpolation stdlev makers) ''Interpolation'' opts dh = Inr c"
    and empty: "anyVectorEmpty (name_air_pressure dh) (name_obs_air_temperature dh)
                  (name_hofx_air_temperature dh) (name_qc_tFlags dh) (name_tObsCorrection dh)"
    and n: "0 < n"
  shows "\<exists>r'. runCheck opts' fb calc n c = Some r' \<and> warnings r' = [EmptyVector] \<and>
           name_LevErrors (handler (fillValidator n r')) = [] \<and>
           name_tInterp (handler (fillValidator n r')) = [] \<and>
           \<not> published_ok n k (handler (fillValidator n r'))"
proof -
  have c: "c = ProfileCheckInterpolation_new stdlev opts dh"
    using create by (simp add: ProfileCheckFactory_create_def makerProfileCheckInterpolation_def)
  show ?thesis
    using empty n
    by (simp add: c runCheck_def Let_def ProfileCheckInterpolation_new_def fillValidator_def published_ok_def)
qed

end
