(* ===== verification/DebugLog.thy ===== *)
theory DebugLog
  imports ProfileCheckInterpolation
begin

text \<open>
  The debug output of the failure branch of \<open>runCheck\<close> (\<open>src/unnamed/part_000\<close>,
  lines 120--137). Its text is formatting; what it reports is modelled as a list of
  log lines carrying the values the code prints: the three levels of the failing
  triple, then for the central level the pressure in hPa, the corrected observation,
  the background and the interpolated value in degrees Celsius and the residual
  \<open>tInterp - tObs\<close>, and for each bracket its pressure, observation and background.
  The printing reads \<open>pressures\<close>, \<open>tObsFinal\<close>, \<open>tBkg\<close> and \<open>tInterp_\<close> with
  \<open>operator[]\<close>, so every read is a checked access here, in the order of the source.
\<close>

text \<open>\<open>ufo::Constants::t0c\<close>, 0 degrees Celsius in kelvin.\<close>

definition t0c :: real where
  "t0c = 27315 / 100"

datatype debug_line =
    FailedLevels int int int
  | CentralLevel int real real real real real
  | BracketLevel int real real real

text \<open>Lines 120--137.\<close>

definition failure_debug ::
  "real list \<Rightarrow> real list \<Rightarrow> real list \<Rightarrow> real list \<Rightarrow> int \<Rightarrow> int \<Rightarrow> int \<Rightarrow> debug_line list option" where
  "failure_debug pressures tObsFinal tBkg tI jlev SigB SigA = do {
     pJ \<leftarrow> vget pressures jlev;
     oJ \<leftarrow> vget tObsFinal jlev;
     bJ \<leftarrow> vget tBkg jlev;
     iJ \<leftarrow> vget tI jlev;
     pB \<leftarrow> vget pressures SigB;
     oB \<leftarrow> vget tObsFinal SigB;
     bB \<leftarrow> vget tBkg SigB;
     pA \<leftarrow> vget pressures SigA;
     oA \<leftarrow> vget tObsFinal SigA;
     bA \<leftarrow> vget tBkg SigA;
     Some [FailedLevels jlev SigB SigA,
           CentralLevel jlev (pJ * 0.01) (oJ - t0c) (bJ - t0c) (iJ - t0c) (iJ - oJ),
           BracketLevel SigB (pB * 0.01) (oB - t0c) (bB - t0c),
           BracketLevel SigA (pA * 0.01) (oA - t0c) (bA - t0c)]
   }"

lemma level_outcome_CheckedD:
  assumes "level_outcome opts fb sl p t fl j = Checked v f"
  shows "SigBelow sl ! nat j \<noteq> -1" and "SigAbove sl ! nat j \<noteq> -1"
    and "f \<longleftrightarrow> ICheck_TInterpTol opts *
           (if p ! nat (StdLev sl ! nat j) < ICheck_TolRelaxPThresh opts then ICheck_TolRelax opts else 1)
           < \<bar>t ! nat (StdLev sl ! nat j) - v\<bar>"
  using assms by (auto simp: level_outcome_def Let_def split: if_splits)

lemma failures_of_Checked:
  assumes "j \<in> set (failures_of opts fb calc n dh)"
  obtains v where "outcomes_of opts fb calc n dh j = Checked v True"
    and "j \<in> set (std_indices (levels_of calc n dh))"
proof -
  from assms have j: "j \<in> set (std_indices (levels_of calc n dh))"
    and f: "is_failure (outcomes_of opts fb calc n dh j)"
    by (auto simp: failures_of_def)
  from f obtain v where oc: "outcomes_of opts fb calc n dh j = Checked v True"
    by (cases "outcomes_of opts fb calc n dh j") auto
  show ?thesis by (rule that [OF oc j])
qed

lemma run_pre_lengths:
  assumes "run_pre opts fb calc n dh"
  shows "n \<le> length (name_air_pressure dh)" "n \<le> length (tObsFinal_of dh)"
    "n \<le> length (name_hofx_air_temperature dh)"
  using assms by (auto simp: run_pre_def inputs_valid_def allVectorsSameSize_def tObsFinal_of_def
      correctVector_def)

text \<open>C23. The failure branch's debug output is safe and truthful: under the run's
  preconditions, for every failing standard level, printing reads nothing out of
  range, and it reports the failing triple, the interpolated value the check stored
  for the central level and the residual \<open>tInterp - tObs\<close> whose magnitude exceeded
  the (relaxed) tolerance, and the pressure, observation and background of the
  central level and of both brackets.\<close>

theorem runCheck_failure_debug:
  assumes pre: "run_pre opts fb calc n dh"
    and j: "j \<in> set (failures_of opts fb calc n dh)" and tI: "n \<le> length tI"
  shows "let sl = levels_of calc n dh; jl = nat (StdLev sl ! nat j);
             B = SigBelow sl ! nat j; A = SigAbove sl ! nat j;
             p = name_air_pressure dh; t = tObsFinal_of dh; b = name_hofx_air_temperature dh
         in \<exists>v. outcomes_of opts fb calc n dh j = Checked v True \<and>
              ICheck_TInterpTol opts *
                (if p ! jl < ICheck_TolRelaxPThresh opts then ICheck_TolRelax opts else 1) < \<bar>v - t ! jl\<bar> \<and>
              failure_debug p t b (tI[jl := v]) (int jl) B A =
                Some [FailedLevels (int jl) B A,
                      CentralLevel (int jl) (p ! jl * 0.01) (t ! jl - t0c) (b ! jl - t0c) (v - t0c) (v - t ! jl),
                      BracketLevel B (p ! nat B * 0.01) (t ! nat B - t0c) (b ! nat B - t0c),
                      BracketLevel A (p ! nat A * 0.01) (t ! nat A - t0c) (b ! nat A - t0c)]"
proof -
  let ?sl = "levels_of calc n dh"
  obtain v where oc: "outcomes_of opts fb calc n dh j = Checked v True"
    and ji: "j \<in> set (std_indices ?sl)"
    using j by (rule failures_of_Checked)
  have lo: "level_outcome opts fb ?sl (name_air_pressure dh) (tObsFinal_of dh) (name_qc_tFlags dh) j = Checked v True"
    using oc by (simp add: outcomes_of_def)
  have ok: "std_levels_ok n ?sl" using pre by (simp add: run_pre_def)
  from ji have "0 \<le> j" "j < NumStd ?sl" by (auto simp: std_indices_def)
  with ok have lev: "std_level_ok n ?sl (nat j)" by (rule std_levels_okD)
  define jl where "jl = nat (StdLev ?sl ! nat j)"
  define B where "B = SigBelow ?sl ! nat j"
  define A where "A = SigAbove ?sl ! nat j"
  have B1: "B \<noteq> -1" and A1: "A \<noteq> -1"
    using level_outcome_CheckedD(1,2) [OF lo] by (simp_all add: B_def A_def)
  have jl: "jl < n" "0 \<le> StdLev ?sl ! nat j" using lev by (auto simp: std_level_ok_def jl_def)
  have "B = -1 \<or> (0 \<le> B \<and> B < int n)" "A = -1 \<or> (0 \<le> A \<and> A < int n)"
    using lev by (simp_all add: std_level_ok_def bracket_ok_def B_def A_def)
  with B1 A1 have BA: "0 \<le> B" "nat B < n" "0 \<le> A" "nat A < n" by auto
  have tol: "ICheck_TInterpTol opts *
      (if name_air_pressure dh ! jl < ICheck_TolRelaxPThresh opts then ICheck_TolRelax opts else 1)
      < \<bar>v - tObsFinal_of dh ! jl\<bar>"
    using level_outcome_CheckedD(3) [OF lo] by (simp add: jl_def abs_minus_commute)
  have ijl: "int jl = StdLev ?sl ! nat j" using jl(2) by (simp add: jl_def)
  have len: "n \<le> length (name_air_pressure dh)" "n \<le> length (tObsFinal_of dh)"
    "n \<le> length (name_hofx_air_temperature dh)" "jl < length tI"
    using run_pre_lengths [OF pre] tI jl(1) by auto
  have fd: "failure_debug (name_air_pressure dh) (tObsFinal_of dh) (name_hofx_air_temperature dh) (tI[jl := v])
          (int jl) B A =
        Some [FailedLevels (int jl) B A,
              CentralLevel (int jl) (name_air_pressure dh ! jl * 0.01) (tObsFinal_of dh ! jl - t0c)
                (name_hofx_air_temperature dh ! jl - t0c) (v - t0c) (v - tObsFinal_of dh ! jl),
              BracketLevel B (name_air_pressure dh ! nat B * 0.01) (tObsFinal_of dh ! nat B - t0c)
                (name_hofx_air_temperature dh ! nat B - t0c),
              BracketLevel A (name_air_pressure dh ! nat A * 0.01) (tObsFinal_of dh ! nat A - t0c)
                (name_hofx_air_temperature dh ! nat A - t0c)]"
    using len jl(1) BA by (simp add: failure_debug_def vec_simps)
  show ?thesis
    unfolding Let_def jl_def [symmetric] B_def [symmetric] A_def [symmetric] using oc tol fd by blast
qed

end
