(* ===== verification/Spec2Isabelle.thy ===== *)
theory Spec2Isabelle
  imports ProfileCheckInterpolation ObsOperator LoopSteps CheckFactory DebugLog
begin

text \<open>
  \<^bold>\<open>Verification of the UFO profile interpolation check.\<close>

  The program is \<open>ufo::ProfileCheckInterpolation\<close> (\<open>src/unnamed/part_000\<close>, the
  \<open>ProfileCheckInterpolation.cpp\<close> of the repository) and the observation-operator
  wrapper \<open>ufo::ObsOperator\<close> (\<open>src/src/ufo/ObsOperator.cc\<close>). \<open>runCheck\<close> reads the
  profile's vectors from the data handler, checks them (\<open>oops::anyVectorEmpty\<close>,
  \<open>oops::allVectorsSameSize\<close>), applies the observation bias correction
  (\<open>correctVector\<close>), asks the standard-level classifier (\<open>calcStdLevels\<close>) for the
  standard levels and their significant brackets, and then, for every standard level,
  interpolates the temperature from its brackets in log-pressure and flags the three
  levels and bumps the error counters when the observation differs from the
  interpolation by more than the tolerance. \<open>fillValidator\<close> publishes the members.

  \<^bold>\<open>Theories.\<close>
  \<^item> \<open>Prelude\<close>: \<open>float\<close> as \<open>real\<close>, checked vector access (\<open>vget\<close>, \<open>vmodify\<close>,
    \<open>vset\<close>: \<open>None\<close> is an out-of-range \<open>operator[]\<close>, i.e. undefined behaviour),
    \<open>cround\<close> for \<open>std::round\<close>, bit lemmas.
  \<^item> \<open>StdLevels\<close>: the classifier's output (\<open>std_levels\<close>, the members \<open>NumStd_\<close>,
    \<open>NumSig_\<close>, \<open>StdLev_\<close>, \<open>SigBelow_\<close>, \<open>SigAbove_\<close>, \<open>IndStd_\<close>, \<open>LogP_\<close>) and its
    contract \<open>std_levels_ok\<close>. \<open>calcStdLevels\<close> is not under \<open>src/\<close>; it is a
    parameter of type \<open>std_levels_fn\<close>, and the theorems hold for every classifier
    that meets the contract (indices in range, brackets in range or the sentinel -1).
  \<^item> \<open>BigGap\<close>: \<open>big_gap_scan\<close> is lines 78--86; \<open>big_gap_ref\<close> is the table lookup it
    implements (first pair whose band is at or below the rounded pressure);
    \<open>band_index\<close> locates the band.
  \<^item> \<open>InterpLevel\<close>: the loop state \<open>interp_state\<close> (tFlags, the two error counters,
    \<open>LevErrors_\<close>, \<open>tInterp_\<close>, \<open>NumErrors\<close>); one iteration \<open>check_level\<close> (lines
    70--94) with its guards in the source's order and its reads in the source's
    order, including the short-circuit of \<open>||\<close>; \<open>interp_test\<close> (96--106) and
    \<open>record_failure\<close> (107--118); the loop as written, \<open>interp_for\<close> (69--139), with
    its \<open>int\<close> counter and a termination proof by the measure \<open>NumStd_ - jlevstd\<close>,
    and the same loop over the index list, \<open>interp_loop\<close>, to which it is proved
    equal. The abstract side is
    the per-level decision \<open>level_outcome\<close> of the specification (skipped, or
    checked with an interpolated value and a verdict) and its effect
    \<open>apply_outcome\<close>; \<open>run_outcomes\<close> folds it over the standard levels.
  \<^item> \<open>LoopSteps\<close>: the same loop as a transition relation \<open>loop_step\<close> on
    (counter, state) pairs, one rule per iteration, with \<open>inductive_cases\<close> for
    inversion; its runs (reflexive transitive closure) are the runs of
    \<open>interp_for\<close>.
  \<^item> \<open>CheckFactory\<close>: the registration of the check under \<open>Interpolation\<close> (lines
    13--14) as an update of the factory's name-to-maker map, the factory's
    \<open>create\<close> (not under \<open>src/\<close>) with an error value for unknown names, and the
    constructor (16--23).
  \<^item> \<open>Preflight\<close>: \<open>anyVectorEmpty\<close>, \<open>allVectorsSameSize\<close>, \<open>correctVector\<close>, modelled
    from the specification (they are not under \<open>src/\<close>).
  \<^item> \<open>ProfileCheckInterpolation\<close>: the data handler (\<open>profile_data\<close>, one field per
    \<open>ufo::VariableNames\<close> key the code uses), the check object (\<open>interp_check\<close>), the
    logged warnings, \<open>runCheck\<close> (25--141) and \<open>fillValidator\<close> (143--156);
    \<open>run_pre\<close> collects the conditions under which the C++ has no undefined
    behaviour, \<open>abstract_run\<close> is the specification's result, \<open>published_ok\<close> the
    well-formedness of what \<open>fillValidator\<close> publishes.
  \<^item> \<open>ObsOperator\<close>: the constructor (\<open>ObsOperator.cc\<close> lines 25--27),
    \<open>simulateObs\<close> (35--48), \<open>variables\<close> and \<open>print\<close> (52--54, 65--67) over
    interface records for the wrapped operator, \<open>ObsBias\<close> and the observation space;
    \<open>save\<close> is ioda's column-wise save into (group, variable) slots.
  \<^item> \<open>DebugLog\<close>: the debug output of the failure branch of \<open>runCheck\<close> (lines
    120--137) as \<open>failure_debug\<close>, the list of values its three \<open>oops::Log::debug\<close>
    lines print (one \<open>debug_line\<close> per line), read through the same checked element
    access as the loop, with \<open>t0c\<close> the constant \<open>ufo::Constants::t0c\<close>.
  \<^item> this theory: the properties that span a run and the publication after it,
    concrete profiles (Scenario A of the specification, a smooth profile, a short
    gap table, overlapping flag bits, an object used for two profiles) evaluated by
    \<open>simp\<close> as documented examples of the behaviours the specification leaves
    open, and the witnesses of the conditional properties.

  \<^bold>\<open>What is shown.\<close> The loop refines the specification: under the contract it
  never reads out of range and equals the fold of the per-level decisions, each
  taken on the flags the run started with (the refinement theorem of \<open>InterpLevel\<close>);
  this needs the surface and interpolation flag bits to be disjoint, because the
  code reads the flags that earlier failures have already modified, and
  \<open>LoopSteps\<close> shows what goes wrong otherwise: with overlapping bits every level
  that took part in a failure is afterwards skipped as a surface level. From the
  refinement follow closed forms of every output of \<open>runCheck\<close>: counters (number
  of failing levels), flags (OR of the interpolation bit on exactly the participants
  of failures), \<open>LevErrors_\<close> (-1 plus the number of failures a level takes part
  in), \<open>tInterp_\<close> (last interpolated value, else missing); the counter loop's
  termination and its completion over all standard levels without undefined
  behaviour; counter bounds (no \<open>int\<close> overflow when the counters start \<open>NumStd\<close>
  below \<open>INT_MAX\<close>); independence of the order of standard levels; each guard
  (surface, sentinel, big gap, sparse significant levels, no standard levels) as a
  skip; the preflight early returns; the BigGap scan's refinement of a first-match
  lookup, its band selection on a decreasing table, its monotonicity in the
  pressure, and its out-of-range condition; what \<open>fillValidator\<close> publishes after a
  run; the frame of a run (only flags and counters of the handler change, with
  their lengths); a second run on the flagged profile, which reproduces flags,
  \<open>LevErrors_\<close> and \<open>tInterp_\<close> but adds to the counters again; and, when the
  object is reused, that an early return makes \<open>fillValidator\<close> publish the
  previous profile's results. Over the transition relation: the invariant of every
  reachable state, by rule induction. For the factory: the empty arrays a fresh
  check publishes after an early return. For the wrapper: \<open>simulateObs\<close> returns
  the operator's values unchanged (the bias is only saved), and with a bias stores
  the predictors computed from the operator's fresh diagnostics, the terms and the
  bias under their three groups. For the debug output: for every level the run
  fails, the failure branch's logging reads only elements in range and prints the
  failing level, its two brackets and the interpolated value whose distance from
  the observation exceeded the tolerance.

  \<^bold>\<open>Modelling choices.\<close> \<open>float\<close> is \<open>real\<close>: IEEE rounding of the interpolation is
  not modelled, so a verdict within an ulp of the tolerance may differ; no theorem
  here depends on the exact value of a residual near the tolerance (the
  interpolation theorem states the comparison the code makes, not its float
  outcome). \<open>int\<close>
  counters are unbounded integers; the bounds theorem of \<open>ProfileCheckInterpolation\<close>
  gives the growth that rules out overflow. The standard-level loop is a \<open>function\<close>
  with a termination proof and the BigGap scan structural recursion, so no fuel is
  needed; every loop terminates. Flag bit values are parameters (\<open>flag_bits\<close>).

  \<^bold>\<open>Not modelled.\<close> \<open>ObsOperator::locations\<close> (it returns the operator's
  \<open>Locations\<close>, a type of an external library) and the algorithms behind the
  interfaces \<open>ObsOperator.cc\<close> calls; the constant debug message of line 27 and
  the stream formatting of the numbers the failure branch prints (what it prints
  is modelled in \<open>DebugLog\<close>; the warnings of the early returns are the log
  \<open>warnings\<close>); the base-class state the constructor passes on (options, indices,
  validator), which \<open>runCheck\<close> receives as parameters; the algorithm of
  \<open>calcStdLevels\<close>,
  which the specification leaves out of scope (only its output contract is used);
  the moved-from state of the members after \<open>fillValidator\<close>, which the C++ standard
  leaves unspecified.
\<close>

section \<open>Example profiles\<close>

text \<open>
  Scenario A of the specification: five levels at 1000, 850, 700, 500 and 300 hPa,
  all of them standard and significant, each bracketed by its neighbours, with a
  temperature linear in log-pressure except for +10 K at level 2. The log-pressures
  are five-digit values of \<open>ln p\<close>. The band table is an example in which the 150 and
  100 hPa bands have 50 hPa gaps.
\<close>

definition optsA :: interp_options where
  "optsA = \<lparr>ICheck_BigGapInit = 25000, ICheck_TolRelaxPThresh = 50000, ICheck_TolRelax = 2,
     ICheck_TInterpTol = 1, StandardLevels = [1000, 850, 700, 500, 400, 300, 250, 200, 150, 100],
     BigGaps = [250, 200, 250, 200, 150, 150, 100, 100, 50, 50]\<rparr>"

definition fbA :: flag_bits where
  "fbA = \<lparr>SurfaceLevelFlag = 1, InterpolationFlag = 2\<rparr>"

definition logpA :: "real list" where
  "logpA = [115129 / 10000, 113504 / 10000, 111563 / 10000, 108198 / 10000, 103089 / 10000]"

definition classifyA :: std_levels_fn where
  "classifyA n p t fl =
     (let m = int n in
      \<lparr>NumStd = m, NumSig = m, StdLev = [0..m - 1], SigAbove = [1..m - 1] @ [-1],
       SigBelow = -1 # [0..m - 2], IndStd = [0..m - 1], LogP = logpA\<rparr>)"

definition profileA :: profile_data where
  "profileA = \<lparr>name_air_pressure = [100000, 85000, 70000, 50000, 30000],
     name_obs_air_temperature = [288516 / 1000, 282016 / 1000, 284252 / 1000, 260792 / 1000, 240356 / 1000],
     name_hofx_air_temperature = [288516 / 1000, 282016 / 1000, 274252 / 1000, 260792 / 1000, 240356 / 1000],
     name_qc_tFlags = [0, 0, 0, 0, 0],
     name_counter_NumAnyErrors = [0], name_counter_NumInterpErrors = [0], name_counter_NumInterpErrObs = [0],
     name_tObsCorrection = [0, 0, 0, 0, 0],
     name_StdLev = [], name_SigAbove = [], name_SigBelow = [], name_IndStd = [], name_LevErrors = [],
     name_tInterp = [], name_LogP = [], name_NumStd = [], name_NumSig = []\<rparr>"

definition runA :: check_run where
  "runA = \<lparr>handler = profileA,
     check_obj = \<lparr>levels = classifyA 0 [] [] [], m_LevErrors = [], m_tInterp = []\<rparr>, warnings = []\<rparr>"

text \<open>The same profile without the perturbation: every temperature is on the line.\<close>

definition runSmooth :: check_run where
  "runSmooth = runA\<lparr>handler := profileA\<lparr>name_obs_air_temperature :=
     [288516 / 1000, 282016 / 1000, 274252 / 1000, 260792 / 1000, 240356 / 1000]\<rparr>\<rparr>"

text \<open>Variants: a 100 hPa gap at the 700 hPa band (Scenario C), a \<open>BigGaps_\<close> table
  shorter than \<open>StandardLevels_\<close>, a classification with too few significant levels, one
  with no standard level, an empty pressure vector (Scenario D), a short correction
  vector.\<close>

definition optsC :: interp_options where
  "optsC = optsA\<lparr>BigGaps := [250, 200, 100, 200, 150, 150, 100, 100, 50, 50]\<rparr>"

definition optsShort :: interp_options where
  "optsShort = optsA\<lparr>BigGaps := [250, 200]\<rparr>"

definition classifySparse :: std_levels_fn where
  "classifySparse n p t fl = (classifyA n p t fl)\<lparr>NumSig := 2\<rparr>"

definition classifyNone :: std_levels_fn where
  "classifyNone n p t fl = (classifyA n p t fl)\<lparr>NumStd := 0\<rparr>"

definition runEmpty :: check_run where
  "runEmpty = runA\<lparr>handler := profileA\<lparr>name_air_pressure := []\<rparr>\<rparr>"

definition runMismatch :: check_run where
  "runMismatch = runA\<lparr>handler := profileA\<lparr>name_tObsCorrection := [0, 0, 0, 0]\<rparr>\<rparr>"

text \<open>The loop's inputs for Scenario A.\<close>

definition slA :: std_levels where
  "slA = levels_of classifyA 5 profileA"

definition stA :: interp_state where
  "stA = init_state 5 profileA"

text \<open>An observation operator that adds one to every simulated value and counts its
  calls in the diagnostics, and a bias whose predictors are that count and whose bias
  is one half.\<close>

definition opDemo :: "(unit, nat) obs_operator" where
  "opDemo = \<lparr>oper = \<lparr>op_simulateObs = (\<lambda>g yy d. (map (\<lambda>(v, xs). (v, map (\<lambda>x. x + 1) xs)) yy, d + 1)),
       op_variables = [''air_temperature''], op_print = ''demo''\<rparr>,
     odb = \<lparr>obs_vars = [''air_temperature''], new_obs_vector = [(''air_temperature'', [0, 0])],
            new_data_vector = (\<lambda>ns. map (\<lambda>n. (n, [0, 0])) ns), obs_db = Map.empty\<rparr>\<rparr>"

definition biasDemo :: "(unit, nat) obs_bias" where
  "biasDemo = \<lparr>bias_active = True, predNames = [''constant'', ''lapse_rate''],
     computeObsBiasPredictors = (\<lambda>g d dv. map (\<lambda>(n, xs). (n, map (\<lambda>_. of_nat d) xs)) dv),
     computeObsBias = (\<lambda>yb P T. (map (\<lambda>(v, xs). (v, map (\<lambda>x. x + 1 / 2) xs)) yb, P))\<rparr>"

definition yyDemo :: datavec where
  "yyDemo = [(''air_temperature'', [250, 260])]"

text \<open>Flag bits that overlap: the interpolation flag is the surface flag.\<close>

definition fbOverlap :: flag_bits where
  "fbOverlap = \<lparr>SurfaceLevelFlag = 1, InterpolationFlag = 1\<rparr>"

section \<open>Evaluation of the examples\<close>

lemmas scenarioA_defs = optsA_def fbA_def logpA_def classifyA_def profileA_def runA_def

lemmas eval_defs = run_pre_def inputs_valid_def anyVectorEmpty_def allVectorsSameSize_def
  levels_of_def std_levels_ok_def std_level_ok_def bracket_ok_def upto.simps upt_rec
  failures_of_def outcomes_of_def std_indices_def level_outcome_def Let_def big_gap_ref_def
  cround_def log_interp_def tObsFinal_of_def correctVector_def participants_def triple_def

lemma scenarioA_pre: "run_pre optsA fbA classifyA 5 (handler runA)"
  by (simp add: scenarioA_defs eval_defs)

lemma scenarioA_failures: "failures_of optsA fbA classifyA 5 (handler runA) = [1, 2, 3]"
  by (simp add: scenarioA_defs eval_defs)

lemma replicate_five: "replicate 5 x = [x, x, x, x, x]"
  by (simp add: numeral_eq_Suc)

lemma all_less_five: "(\<forall>i<(5::nat). P i) \<longleftrightarrow> P 0 \<and> P 1 \<and> P 2 \<and> P 3 \<and> P 4"
  by (auto simp: numeral_eq_Suc less_Suc_eq)
lemmas code_defs = replicate_five runCheck_def interp_for_loop check_level_def interp_test_def record_failure_def Let_def
  vec_simps cround_def upto.simps anyVectorEmpty_def allVectorsSameSize_def correctVector_def
  missingValueFloat_def

section \<open>Properties across components\<close>

text \<open>C21. Run then publish: after a run that returns, \<open>fillValidator\<close> hands the data
  handler the per-level error counts of the run, one interpolated value per level, the
  classification's \<open>StdLev\<close>, and \<open>NumStd\<close> and \<open>NumSig\<close> broadcast to one entry per
  level; the flags it leaves are those the run wrote.\<close>

theorem runCheck_fillValidator_publishes:
  assumes pre: "run_pre opts fb calc n (handler r)" and run: "runCheck opts fb calc n r = Some r'"
    and i: "i < n"
  shows "name_LevErrors (handler (fillValidator n r')) ! i =
           -1 + int (count_list (participants (levels_of calc n (handler r))
                                  (failures_of opts fb calc n (handler r))) i) \<and>
         length (name_tInterp (handler (fillValidator n r'))) = n \<and>
         name_NumStd (handler (fillValidator n r')) = replicate n (NumStd (levels_of calc n (handler r))) \<and>
         name_NumSig (handler (fillValidator n r')) = replicate n (NumSig (levels_of calc n (handler r))) \<and>
         name_StdLev (handler (fillValidator n r')) = StdLev (levels_of calc n (handler r)) \<and>
         name_qc_tFlags (handler (fillValidator n r')) = name_qc_tFlags (handler r')"
proof -
  from runCheck_abstract [OF pre] run
  have obj: "check_obj r' = \<lparr>levels = levels_of calc n (handler r),
      m_LevErrors = LevErrors (abstract_run opts fb calc n (handler r)),
      m_tInterp = tInterp (abstract_run opts fb calc n (handler r))\<rparr>"
    by auto
  have "length (tInterp (abstract_run opts fb calc n (handler r))) = n"
    by (simp add: abstract_run_def)
  with obj i show ?thesis by (simp add: fillValidator_def Let_def abstract_run_LevErrors)
qed

text \<open>C29. Reusing the check object publishes the previous profile's results:
  \<open>fillValidator\<close> moves out the members whatever \<open>runCheck\<close> did. After a run
  that returns on one profile, a run of the same object on a second profile with an
  empty vector returns early with the warning, and \<open>fillValidator\<close> then writes
  into the second profile's handler the first profile's per-level error counts (one
  per level of the first profile) and its \<open>StdLev\<close>, whatever the options,
  classifier and level count of the second run.\<close>

theorem reused_check_publishes_previous_profile:
  assumes pre: "run_pre opts fb calc n (handler r)" and run: "runCheck opts fb calc n r = Some r1"
    and empty: "anyVectorEmpty (name_air_pressure dh2) (name_obs_air_temperature dh2)
                  (name_hofx_air_temperature dh2) (name_qc_tFlags dh2) (name_tObsCorrection dh2)"
    and i: "i < n"
  shows "\<exists>r2. runCheck opts' fb' calc' n' (r1\<lparr>handler := dh2\<rparr>) = Some r2 \<and>
           warnings r2 = warnings r @ [EmptyVector] \<and>
           length (name_LevErrors (handler (fillValidator n' r2))) = n \<and>
           name_LevErrors (handler (fillValidator n' r2)) ! i =
             -1 + int (count_list (participants (levels_of calc n (handler r))
                                    (failures_of opts fb calc n (handler r))) i) \<and>
           name_StdLev (handler (fillValidator n' r2)) = StdLev (levels_of calc n (handler r))"
proof -
  from runCheck_abstract [OF pre] run
  have obj: "check_obj r1 = \<lparr>levels = levels_of calc n (handler r),
      m_LevErrors = LevErrors (abstract_run opts fb calc n (handler r)),
      m_tInterp = tInterp (abstract_run opts fb calc n (handler r))\<rparr>"
    and w: "warnings r1 = warnings r"
    by auto
  have run2: "runCheck opts' fb' calc' n' (r1\<lparr>handler := dh2\<rparr>) =
      Some (r1\<lparr>handler := dh2, warnings := warnings r1 @ [EmptyVector]\<rparr>)"
    using empty by (simp add: runCheck_def Let_def)
  have "length (LevErrors (abstract_run opts fb calc n (handler r))) = n"
    by (simp add: abstract_run_def)
  with run2 obj w i show ?thesis by (simp add: fillValidator_def Let_def abstract_run_LevErrors)
qed

section \<open>Runs of the examples\<close>

text \<open>Scenario A, computed on the code: the +10 K offset at level 2 also displaces
  the interpolated values of levels 1 and 3, so three standard levels fail, not one:
  \<open>NumInterpErrors\<close> becomes 3, all five levels are flagged, and \<open>LevErrors_\<close> is
  \<open>[0, 1, 2, 1, 0]\<close> (level 2 takes part in three failing tests).\<close>

lemma scenarioA_run:
  "map_option (\<lambda>r'. (name_qc_tFlags (handler r'), name_counter_NumInterpErrors (handler r'),
                     name_counter_NumInterpErrObs (handler r'), m_LevErrors (check_obj r')))
     (runCheck optsA fbA classifyA 5 runA) = Some ([2, 2, 2, 2, 2], [3], [1], [0, 1, 2, 1, 0])"
  by (simp add: scenarioA_defs code_defs)

text \<open>A level that is evaluated and passes keeps \<open>LevErrors_ = -1\<close>: on the
  unperturbed profile levels 1--3 are all evaluated (their \<open>tInterp_\<close> is set) and
  none fails, and every \<open>LevErrors_\<close> is still -1, so -1 does not mean ``not
  evaluated''.\<close>

lemma smooth_profile_run:
  "map_option (\<lambda>r'. (m_LevErrors (check_obj r'), m_tInterp (check_obj r') ! 2,
                     name_counter_NumInterpErrObs (handler r')))
     (runCheck optsA fbA classifyA 5 runSmooth) = Some ([-1, -1, -1, -1, -1], 274252 / 1000, [0])"
  by (simp add: runSmooth_def scenarioA_defs code_defs)

text \<open>The band table is not validated: with \<open>BigGaps_\<close> shorter than
  \<open>StandardLevels_\<close>, the level at 700 hPa selects band 2 and reads \<open>BigGaps_[2]\<close>
  out of range, so the run has undefined behaviour.\<close>

lemma short_gap_table_undefined:
  "runCheck optsShort fbA classifyA 5 runA = None"
  by (simp add: optsShort_def scenarioA_defs code_defs)

text \<open>The loop reads the flags that earlier failures have modified. If the
  interpolation flag shared a bit with the surface flag, the failure at level 1 would
  mark level 2 as a surface level and level 2 would not be checked: on Scenario A the
  run then finds two failures instead of three, and \<open>LevErrors_\<close> is
  \<open>[0, 0, 1, 0, 0]\<close> instead of \<open>[0, 1, 2, 1, 0]\<close>. The result is order independent
  only for disjoint bits.\<close>

lemma overlapping_flag_bits_run:
  "map_option (\<lambda>r'. (name_qc_tFlags (handler r'), name_counter_NumInterpErrors (handler r'),
                     m_LevErrors (check_obj r')))
     (runCheck optsA fbOverlap classifyA 5 runA) = Some ([1, 1, 1, 1, 1], [2], [0, 0, 1, 0, 0])"
  by (simp add: fbOverlap_def scenarioA_defs code_defs)

text \<open>\<open>fillValidator\<close> publishes the object's members whatever \<open>runCheck\<close> did:
  an object that checked Scenario A and is then run on a profile with an empty
  pressure vector returns early with the warning, and \<open>fillValidator\<close> then writes
  Scenario A's \<open>LevErrors_\<close> into the empty profile's handler.\<close>

lemma stale_publication_after_early_return:
  "map_option (\<lambda>r2. (warnings r2, name_LevErrors (handler (fillValidator 5 r2)),
                     name_air_pressure (handler (fillValidator 5 r2))))
     (runCheck optsA fbA classifyA 5 runA \<bind>
        (\<lambda>r1. runCheck optsA fbA classifyA 5 (r1\<lparr>handler := handler runEmpty\<rparr>)))
   = Some ([EmptyVector], [0, 1, 2, 1, 0], [])"
  by (simp add: runEmpty_def fillValidator_def scenarioA_defs code_defs)

section \<open>Witnesses\<close>

text \<open>Each conditional property applied to an example whose hypotheses hold.\<close>

theorem simulateObs_bias_store_witness:
  "bias_active biasDemo \<and>
   obs_db (snd (snd (simulateObs opDemo () yyDemo biasDemo 0))) (''ObsBiasPredictor'', ''constant'') =
     Some [1, 1] \<and>
   obs_db (snd (snd (simulateObs opDemo () yyDemo biasDemo 0))) (''ObsBias'', ''air_temperature'') =
     Some [1 / 2, 1 / 2]"
proof -
  have on: "bias_active biasDemo" by (simp add: biasDemo_def)
  have op: "op_simulateObs (oper opDemo) () yyDemo 0 = ([(''air_temperature'', [251, 261])], 1)"
    by (simp add: opDemo_def yyDemo_def)
  define P where "P = computeObsBiasPredictors biasDemo () (1::nat)
                        (new_data_vector (odb opDemo) (predNames biasDemo))"
  have P': "P = [(''constant'', [1, 1]), (''lapse_rate'', [1, 1])]"
    by (simp add: P_def biasDemo_def opDemo_def)
  have bt: "computeObsBias biasDemo (new_obs_vector (odb opDemo)) P
              (new_data_vector (odb opDemo) (predNames biasDemo)) = ([(''air_temperature'', [1 / 2, 1 / 2])], P)"
    by (simp add: P' biasDemo_def opDemo_def)
  show ?thesis
    using on simulateObs_bias_store [OF on op P_def bt, of "''ObsBiasPredictor''" "''constant''"]
      simulateObs_bias_store [OF on op P_def bt, of "''ObsBias''" "''air_temperature''"]
    by (simp add: P')
qed

theorem runCheck_frame_witness:
  "\<exists>r'. runCheck optsA fbA classifyA 5 runA = Some r' \<and> warnings r' = warnings runA \<and>
     length (m_LevErrors (check_obj r')) = 5 \<and>
     length (name_qc_tFlags (handler r')) = length (name_qc_tFlags (handler runA))"
proof -
  obtain r' where run: "runCheck optsA fbA classifyA 5 runA = Some r'"
    using runCheck_abstract [OF scenarioA_pre] by blast
  have w: "warnings r' = warnings runA"
    using run runCheck_abstract [OF scenarioA_pre] by auto
  show ?thesis using runCheck_frame [OF run] run w by auto
qed

theorem runCheck_rerun_witness:
  "\<exists>r'. runCheck optsA fbA classifyA 5 runA = Some r' \<and>
     levels_of classifyA 5 (handler r') = levels_of classifyA 5 (handler runA) \<and>
     (\<exists>r''. runCheck optsA fbA classifyA 5 r' = Some r'' \<and>
        name_qc_tFlags (handler r'') = name_qc_tFlags (handler r') \<and>
        m_LevErrors (check_obj r'') = m_LevErrors (check_obj r') \<and>
        m_tInterp (check_obj r'') = m_tInterp (check_obj r') \<and>
        name_counter_NumInterpErrors (handler r'') ! 0 - name_counter_NumInterpErrors (handler r') ! 0 =
        name_counter_NumInterpErrors (handler r') ! 0 - name_counter_NumInterpErrors (handler runA) ! 0)"
proof -
  obtain r' where run: "runCheck optsA fbA classifyA 5 runA = Some r'"
    using runCheck_abstract [OF scenarioA_pre] by blast
  have same: "levels_of classifyA 5 (handler r') = levels_of classifyA 5 (handler runA)"
    by (simp add: levels_of_def classifyA_def)
  show ?thesis using run same runCheck_rerun [OF scenarioA_pre run same] by blast
qed

theorem fresh_check_early_return_publishes_empty_witness:
  "\<exists>r'. runCheck optsA fbA classifyA 5 (ProfileCheckInterpolation_new (\<lambda>_. slA) optsA (handler runEmpty)) = Some r' \<and>
     warnings r' = [EmptyVector] \<and> name_LevErrors (handler (fillValidator 5 r')) = [] \<and>
     \<not> published_ok 5 5 (handler (fillValidator 5 r'))"
proof -
  have create: "ProfileCheckFactory_create (makerProfileCheckInterpolation (\<lambda>_. slA) Map.empty) ''Interpolation''
      optsA (handler runEmpty) = Inr (ProfileCheckInterpolation_new (\<lambda>_. slA) optsA (handler runEmpty))"
    by (simp add: ProfileCheckFactory_create_def makerProfileCheckInterpolation_def)
  have empty: "anyVectorEmpty (name_air_pressure (handler runEmpty)) (name_obs_air_temperature (handler runEmpty))
      (name_hofx_air_temperature (handler runEmpty)) (name_qc_tFlags (handler runEmpty))
      (name_tObsCorrection (handler runEmpty))"
    by (simp add: runEmpty_def runA_def anyVectorEmpty_def)
  have n: "(0::nat) < 5" by simp
  show ?thesis
    using fresh_check_early_return_publishes_empty [OF create empty n, of optsA fbA classifyA 5] by blast
qed

theorem reused_check_publishes_previous_profile_witness:
  "run_pre optsA fbA classifyA 5 (handler runA) \<and>
   anyVectorEmpty (name_air_pressure (handler runEmpty)) (name_obs_air_temperature (handler runEmpty))
     (name_hofx_air_temperature (handler runEmpty)) (name_qc_tFlags (handler runEmpty))
     (name_tObsCorrection (handler runEmpty)) \<and> (2::nat) < 5 \<and>
   (\<exists>r1. runCheck optsA fbA classifyA 5 runA = Some r1 \<and>
      (\<exists>r2. runCheck optsA fbA classifyA 5 (r1\<lparr>handler := handler runEmpty\<rparr>) = Some r2 \<and>
         length (name_LevErrors (handler (fillValidator 5 r2))) = 5 \<and>
         name_LevErrors (handler (fillValidator 5 r2)) ! 2 = 2))"
proof -
  obtain r1 where run: "runCheck optsA fbA classifyA 5 runA = Some r1"
    using runCheck_abstract [OF scenarioA_pre] by blast
  have empty: "anyVectorEmpty (name_air_pressure (handler runEmpty)) (name_obs_air_temperature (handler runEmpty))
      (name_hofx_air_temperature (handler runEmpty)) (name_qc_tFlags (handler runEmpty))
      (name_tObsCorrection (handler runEmpty))"
    by (simp add: runEmpty_def runA_def anyVectorEmpty_def)
  have cnt: "-1 + int (count_list (participants (levels_of classifyA 5 (handler runA))
      (failures_of optsA fbA classifyA 5 (handler runA))) 2) = 2"
    by (simp add: scenarioA_failures participants_def triple_def levels_of_def classifyA_def upto.simps)
  have i: "(2::nat) < 5" by simp
  show ?thesis
    using reused_check_publishes_previous_profile [OF scenarioA_pre run empty i, of optsA fbA classifyA 5]
      scenarioA_pre empty run cnt by auto
qed

theorem runCheck_failure_debug_witness:
  "run_pre optsA fbA classifyA 5 (handler runA) \<and> 2 \<in> set (failures_of optsA fbA classifyA 5 (handler runA)) \<and>
   (\<exists>v. outcomes_of optsA fbA classifyA 5 (handler runA) 2 = Checked v True \<and>
        failure_debug (name_air_pressure (handler runA)) (tObsFinal_of (handler runA))
          (name_hofx_air_temperature (handler runA)) ((replicate 5 missingValueFloat)[2 := v]) 2 1 3 \<noteq> None)"
proof -
  have j: "2 \<in> set (failures_of optsA fbA classifyA 5 (handler runA))" by (simp add: scenarioA_failures)
  have tI: "5 \<le> length (replicate 5 missingValueFloat)" by simp
  have sl: "StdLev (levels_of classifyA 5 (handler runA)) ! 2 = 2"
    "SigBelow (levels_of classifyA 5 (handler runA)) ! 2 = 1"
    "SigAbove (levels_of classifyA 5 (handler runA)) ! 2 = 3"
    by (simp_all add: levels_of_def classifyA_def upto.simps)
  show ?thesis
    using scenarioA_pre j runCheck_failure_debug [OF scenarioA_pre j tI]
    by (simp add: Let_def sl) blast
qed

theorem runCheck_fillValidator_publishes_witness:
  "run_pre optsA fbA classifyA 5 (handler runA) \<and> (2::nat) < 5 \<and>
   (\<exists>r'. runCheck optsA fbA classifyA 5 runA = Some r' \<and>
     name_LevErrors (handler (fillValidator 5 r')) ! 2 = 2 \<and>
     length (name_tInterp (handler (fillValidator 5 r'))) = 5)"
proof -
  obtain r' where run: "runCheck optsA fbA classifyA 5 runA = Some r'"
    using runCheck_abstract [OF scenarioA_pre] by blast
  have "name_LevErrors (handler (fillValidator 5 r')) ! 2 = 2 \<and>
        length (name_tInterp (handler (fillValidator 5 r'))) = 5"
    using runCheck_fillValidator_publishes [OF scenarioA_pre run, of 2] scenarioA_failures
    by (simp add: scenarioA_defs eval_defs)
  with scenarioA_pre run show ?thesis by auto
qed

theorem runCheck_counters_witness:
  "run_pre optsA fbA classifyA 5 (handler runA) \<and>
   map_option (\<lambda>r'. (name_counter_NumAnyErrors (handler r'), name_counter_NumInterpErrors (handler r'),
                     name_counter_NumInterpErrObs (handler r'))) (runCheck optsA fbA classifyA 5 runA)
   = Some ([3], [3], [1])"
  using scenarioA_pre runCheck_counters [OF scenarioA_pre] scenarioA_failures
  by (simp add: scenarioA_defs)

theorem runCheck_flags_witness:
  "run_pre optsA fbA classifyA 5 (handler runA) \<and> 2 < length (name_qc_tFlags (handler runA)) \<and>
   map_option (\<lambda>r'. name_qc_tFlags (handler r') ! 2) (runCheck optsA fbA classifyA 5 runA) = Some 2"
proof -
  have i: "2 < length (name_qc_tFlags (handler runA))" by (simp add: scenarioA_defs)
  show ?thesis
    using scenarioA_pre i runCheck_flags [OF scenarioA_pre i] scenarioA_failures
    by (simp add: scenarioA_defs eval_defs)
qed

theorem runCheck_LevErrors_witness:
  "run_pre optsA fbA classifyA 5 (handler runA) \<and> (2::nat) < 5 \<and>
   map_option (\<lambda>r'. m_LevErrors (check_obj r') ! 2) (runCheck optsA fbA classifyA 5 runA) = Some 2"
  using scenarioA_pre runCheck_LevErrors [OF scenarioA_pre, of 2] scenarioA_failures
  by (simp add: scenarioA_defs eval_defs)

theorem runCheck_tInterp_witness:
  "run_pre optsA fbA classifyA 5 (handler runA) \<and> (2::nat) < 5 \<and>
   map_option (\<lambda>r'. m_tInterp (check_obj r') ! 2) (runCheck optsA fbA classifyA 5 runA) = Some (274252 / 1000)"
  using scenarioA_pre runCheck_tInterp [OF scenarioA_pre, of 2]
  by (simp add: scenarioA_defs eval_defs interp_writes_def)

theorem runCheck_returns_witness:
  "run_pre optsA fbA classifyA 5 (handler runA) \<and> runCheck optsA fbA classifyA 5 runA \<noteq> None"
  using scenarioA_pre runCheck_returns [OF scenarioA_pre] by simp

theorem runCheck_bounds_witness:
  "run_pre optsA fbA classifyA 5 (handler runA) \<and> (2::nat) < 5 \<and>
   (\<exists>r'. runCheck optsA fbA classifyA 5 runA = Some r' \<and>
      -1 \<le> m_LevErrors (check_obj r') ! 2 \<and>
      m_LevErrors (check_obj r') ! 2 \<le> 3 * NumStd (levels_of classifyA 5 (handler runA)) - 1 \<and>
      name_counter_NumInterpErrors (handler r') ! 0 \<le>
        name_counter_NumInterpErrors (handler runA) ! 0 + NumStd (levels_of classifyA 5 (handler runA)) \<and>
      name_counter_NumAnyErrors (handler r') ! 0 \<le>
        name_counter_NumAnyErrors (handler runA) ! 0 + NumStd (levels_of classifyA 5 (handler runA)))"
  using scenarioA_pre runCheck_bounds [OF scenarioA_pre, of 2] by simp

theorem runCheck_sparse_witness:
  "run_pre optsA fbA classifySparse 5 (handler runA) \<and>
   NumSig (levels_of classifySparse 5 (handler runA)) <
     max 3 (NumStd (levels_of classifySparse 5 (handler runA)) sdiv 2) \<and>
   runCheck optsA fbA classifySparse 5 runA =
     Some (runA\<lparr>check_obj := \<lparr>levels = levels_of classifySparse 5 (handler runA),
                                m_LevErrors = replicate 5 (-1), m_tInterp = replicate 5 missingValueFloat\<rparr>\<rparr>)"
proof -
  have pre: "run_pre optsA fbA classifySparse 5 (handler runA)"
    by (simp add: scenarioA_defs classifySparse_def eval_defs)
  have sp: "NumSig (levels_of classifySparse 5 (handler runA)) <
      max 3 (NumStd (levels_of classifySparse 5 (handler runA)) sdiv 2)"
    by (simp add: scenarioA_defs classifySparse_def levels_of_def)
  show ?thesis using pre sp runCheck_sparse [OF pre sp] by blast
qed

theorem runCheck_no_std_levels_witness:
  "inputs_valid (handler runA) \<and> NumStd (levels_of classifyNone 5 (handler runA)) \<le> 0 \<and>
   runCheck optsA fbA classifyNone 5 runA =
     Some (runA\<lparr>check_obj := \<lparr>levels = levels_of classifyNone 5 (handler runA),
                                m_LevErrors = replicate 5 (-1), m_tInterp = replicate 5 missingValueFloat\<rparr>\<rparr>)"
proof -
  have v: "inputs_valid (handler runA)"
    by (simp add: scenarioA_defs inputs_valid_def anyVectorEmpty_def allVectorsSameSize_def)
  have z: "NumStd (levels_of classifyNone 5 (handler runA)) \<le> 0"
    by (simp add: classifyNone_def levels_of_def)
  show ?thesis using v z runCheck_no_std_levels [OF v z] by blast
qed

theorem runCheck_empty_vector_witness:
  "anyVectorEmpty (name_air_pressure (handler runEmpty)) (name_obs_air_temperature (handler runEmpty))
     (name_hofx_air_temperature (handler runEmpty)) (name_qc_tFlags (handler runEmpty))
     (name_tObsCorrection (handler runEmpty)) \<and>
   runCheck optsA fbA classifyA 5 runEmpty = Some (runEmpty\<lparr>warnings := [EmptyVector]\<rparr>)"
proof -
  have e: "anyVectorEmpty (name_air_pressure (handler runEmpty)) (name_obs_air_temperature (handler runEmpty))
     (name_hofx_air_temperature (handler runEmpty)) (name_qc_tFlags (handler runEmpty))
     (name_tObsCorrection (handler runEmpty))"
    by (simp add: runEmpty_def anyVectorEmpty_def)
  show ?thesis using e runCheck_empty_vector [OF e] by (simp add: runEmpty_def runA_def)
qed

theorem runCheck_size_mismatch_witness:
  "\<not> anyVectorEmpty (name_air_pressure (handler runMismatch)) (name_obs_air_temperature (handler runMismatch))
     (name_hofx_air_temperature (handler runMismatch)) (name_qc_tFlags (handler runMismatch))
     (name_tObsCorrection (handler runMismatch)) \<and>
   \<not> allVectorsSameSize (name_air_pressure (handler runMismatch)) (name_obs_air_temperature (handler runMismatch))
     (name_hofx_air_temperature (handler runMismatch)) (name_qc_tFlags (handler runMismatch))
     (name_tObsCorrection (handler runMismatch)) \<and>
   runCheck optsA fbA classifyA 5 runMismatch = Some (runMismatch\<lparr>warnings := [SizeMismatch]\<rparr>)"
proof -
  have e: "\<not> anyVectorEmpty (name_air_pressure (handler runMismatch)) (name_obs_air_temperature (handler runMismatch))
     (name_hofx_air_temperature (handler runMismatch)) (name_qc_tFlags (handler runMismatch))
     (name_tObsCorrection (handler runMismatch))"
    by (simp add: runMismatch_def scenarioA_defs anyVectorEmpty_def)
  have m: "\<not> allVectorsSameSize (name_air_pressure (handler runMismatch)) (name_obs_air_temperature (handler runMismatch))
     (name_hofx_air_temperature (handler runMismatch)) (name_qc_tFlags (handler runMismatch))
     (name_tObsCorrection (handler runMismatch))"
    by (simp add: runMismatch_def scenarioA_defs allVectorsSameSize_def)
  show ?thesis using e m runCheck_size_mismatch [OF e m] by (simp add: runMismatch_def runA_def)
qed

lemma scenarioA_loop_inputs:
  "inputs_ok 5 optsA slA (name_air_pressure profileA) (tObsFinal_of profileA)"
  "dims_ok 5 stA" "SurfaceLevelFlag fbA AND InterpolationFlag fbA = 0"
  "\<forall>j\<in>set [0..4]. 0 \<le> j \<and> std_level_ok 5 slA (nat j)"
  by (simp_all add: slA_def stA_def init_state_def scenarioA_defs eval_defs inputs_ok_def dims_ok_def)

theorem interp_loop_refines_witness:
  "inputs_ok 5 optsA slA (name_air_pressure profileA) (tObsFinal_of profileA) \<and> dims_ok 5 stA \<and>
   SurfaceLevelFlag fbA AND InterpolationFlag fbA = 0 \<and>
   list_all (\<lambda>j. 0 \<le> j \<and> std_level_ok 5 slA (nat j)) [0..4] \<and>
   interp_loop optsA fbA slA (name_air_pressure profileA) (tObsFinal_of profileA) [0..4] stA =
     Some (run_outcomes fbA slA (level_outcome optsA fbA slA (name_air_pressure profileA) (tObsFinal_of profileA)
             (tFlags stA)) [0..4] stA)"
  using scenarioA_loop_inputs interp_loop_refines [OF scenarioA_loop_inputs]
  by (simp only: list_all_iff)

theorem interp_for_completes_witness:
  "inputs_ok 5 optsA slA (name_air_pressure profileA) (tObsFinal_of profileA) \<and> dims_ok 5 stA \<and>
   SurfaceLevelFlag fbA AND InterpolationFlag fbA = 0 \<and> std_levels_ok 5 slA \<and>
   interp_for optsA fbA slA (name_air_pressure profileA) (tObsFinal_of profileA) 0 stA =
     Some (run_outcomes fbA slA (level_outcome optsA fbA slA (name_air_pressure profileA) (tObsFinal_of profileA)
             (tFlags stA)) [0..NumStd slA - 1] stA)"
proof -
  have ok: "std_levels_ok 5 slA" by (simp add: slA_def scenarioA_defs eval_defs)
  show ?thesis
    using scenarioA_loop_inputs(1-3) ok interp_for_completes [OF scenarioA_loop_inputs(1-3) ok] by blast
qed

theorem loop_reachable_inv_witness:
  "SurfaceLevelFlag fbA AND InterpolationFlag fbA = 0 \<and>
   (loop_step optsA fbA slA (name_air_pressure profileA) (tObsFinal_of profileA))\<^sup>*\<^sup>* (0, stA) (1, stA) \<and>
   (1::int) \<le> max 0 (NumStd slA) \<and> NumErrors stA \<le> NumErrors stA + 1"
proof -
  have c: "check_level optsA fbA slA (name_air_pressure profileA) (tObsFinal_of profileA) 0 stA = Some stA"
    by (simp add: slA_def stA_def init_state_def scenarioA_defs code_defs levels_of_def tObsFinal_of_def)
  have "loop_step optsA fbA slA (name_air_pressure profileA) (tObsFinal_of profileA) (0, stA) (0 + 1, stA)"
    by (rule loop_step.iter [OF _ c]) (simp add: slA_def levels_of_def classifyA_def)
  then have r: "(loop_step optsA fbA slA (name_air_pressure profileA) (tObsFinal_of profileA))\<^sup>*\<^sup>* (0, stA) (1, stA)"
    by simp
  show ?thesis using scenarioA_loop_inputs(3) r loop_reachable_inv [OF scenarioA_loop_inputs(3) r] by simp
qed
theorem check_level_interpolates_witness:
  "\<exists>st'. check_level optsA fbA slA (name_air_pressure profileA) (tObsFinal_of profileA) 2 stA = Some st' \<and>
     tInterp st' ! 2 = 274252 / 1000 \<and> NumErrors st' = 1"
proof -
  note h = scenarioA_loop_inputs(1,2)
  have lev: "std_level_ok 5 slA (nat 2)" by (simp add: slA_def scenarioA_defs eval_defs)
  have idx: "StdLev slA ! nat 2 = int 2" "SigBelow slA ! nat 2 = int 1" "SigAbove slA ! nat 2 = int 3"
    by (simp_all add: slA_def scenarioA_defs eval_defs)
  have g: "tFlags stA ! 2 AND SurfaceLevelFlag fbA = 0"
    "\<not> NumSig slA < max 3 (NumStd slA sdiv 2)"
    "\<not> name_air_pressure profileA ! 1 - name_air_pressure profileA ! 2 >
       big_gap_ref (ICheck_BigGapInit optsA) (zip (StandardLevels optsA) (BigGaps optsA))
         (cround (name_air_pressure profileA ! 2 * 0.01))"
    "\<not> name_air_pressure profileA ! 2 - name_air_pressure profileA ! 3 >
       big_gap_ref (ICheck_BigGapInit optsA) (zip (StandardLevels optsA) (BigGaps optsA))
         (cround (name_air_pressure profileA ! 2 * 0.01))"
    "LogP slA ! 1 \<noteq> LogP slA ! 3"
    by (simp_all add: slA_def stA_def init_state_def scenarioA_defs eval_defs signed_divide_int_def)
  show ?thesis
    using check_level_interpolates [OF h lev _ idx g] by (simp add: Let_def slA_def stA_def init_state_def
        scenarioA_defs eval_defs)
qed

theorem check_level_surface_first_witness:
  "check_level optsA fbA slA (name_air_pressure profileA) (tObsFinal_of profileA) 0
     (stA\<lparr>tFlags := [1, 0, 0, 0, 0]\<rparr>) = Some (stA\<lparr>tFlags := [1, 0, 0, 0, 0]\<rparr>)"
proof -
  have "vget (StdLev slA) 0 = Some 0" by (simp add: slA_def scenarioA_defs levels_of_def upto.simps)
  moreover have "vget (tFlags (stA\<lparr>tFlags := [1, 0, 0, 0, 0]\<rparr>)) 0 = Some 1" by simp
  moreover have "(1::int) AND SurfaceLevelFlag fbA \<noteq> 0" by (simp add: fbA_def)
  ultimately show ?thesis by (rule check_level_surface_first)
qed

theorem overlapping_bits_skip_participants_witness:
  "InterpolationFlag fbOverlap AND SurfaceLevelFlag fbOverlap \<noteq> 0 \<and>
   vget (StdLev slA) 3 = Some 3 \<and> (3::int) \<in> {2, 1, 3} \<and>
   (\<exists>st'. record_failure fbOverlap 2 1 3 (tInterp stA) stA = Some st' \<and>
      check_level optsA fbOverlap slA (name_air_pressure profileA) (tObsFinal_of profileA) 3 st' = Some st')"
proof -
  have ov: "InterpolationFlag fbOverlap AND SurfaceLevelFlag fbOverlap \<noteq> 0" by (simp add: fbOverlap_def)
  have k: "vget (StdLev slA) 3 = Some 3" by (simp add: slA_def scenarioA_defs levels_of_def upto.simps)
  obtain st' where rf: "record_failure fbOverlap 2 1 3 (tInterp stA) stA = Some st'"
    by (simp add: record_failure_def stA_def init_state_def profileA_def vmodify_def replicate_five)
  have "(3::int) \<in> {2, 1, 3}" by simp
  from overlapping_bits_skip_participants [OF ov rf k this] ov k rf show ?thesis by auto
qed

theorem interp_loop_order_independent_witness:
  "interp_loop optsA fbA slA (name_air_pressure profileA) (tObsFinal_of profileA) [4, 3, 2, 1, 0] stA =
   interp_loop optsA fbA slA (name_air_pressure profileA) (tObsFinal_of profileA) [0..4] stA"
proof (rule interp_loop_order_independent [OF scenarioA_loop_inputs])
  show "distinct (map (\<lambda>j. StdLev slA ! nat j) [0..4])"
    by (simp add: slA_def scenarioA_defs levels_of_def upto.simps)
  show "mset [4, 3, 2, 1, 0] = mset [0..(4::int)]" by (simp add: upto.simps)
qed

theorem check_level_no_bracket_witness:
  "check_level optsA fbA slA (name_air_pressure profileA) (tObsFinal_of profileA) 0 stA = Some stA"
proof (rule check_level_no_bracket [OF scenarioA_loop_inputs(1,2)])
  show "std_level_ok 5 slA (nat 0)" by (simp add: slA_def scenarioA_defs eval_defs)
  show "SigBelow slA ! nat 0 = -1 \<or> SigAbove slA ! nat 0 = -1"
    by (simp add: slA_def scenarioA_defs levels_of_def)
qed simp

theorem check_level_gap_skip_witness:
  "check_level optsC fbA slA (name_air_pressure profileA) (tObsFinal_of profileA) 2 stA = Some stA"
proof (rule check_level_gap_skip [where jl = 2 and b = 1 and a = 3])
  show "inputs_ok 5 optsC slA (name_air_pressure profileA) (tObsFinal_of profileA)"
    by (simp add: optsC_def slA_def scenarioA_defs eval_defs inputs_ok_def)
  show "dims_ok 5 stA" by (rule scenarioA_loop_inputs(2))
  show "std_level_ok 5 slA (nat 2)" by (simp add: slA_def scenarioA_defs eval_defs)
  show "StdLev slA ! nat 2 = int 2" "SigBelow slA ! nat 2 = int 1" "SigAbove slA ! nat 2 = int 3"
    by (simp_all add: slA_def scenarioA_defs eval_defs)
  show "name_air_pressure profileA ! 1 - name_air_pressure profileA ! 2 >
          big_gap_ref (ICheck_BigGapInit optsC) (zip (StandardLevels optsC) (BigGaps optsC))
            (cround (name_air_pressure profileA ! 2 * 0.01)) \<or>
        name_air_pressure profileA ! 2 - name_air_pressure profileA ! 3 >
          big_gap_ref (ICheck_BigGapInit optsC) (zip (StandardLevels optsC) (BigGaps optsC))
            (cround (name_air_pressure profileA ! 2 * 0.01))"
    by (simp add: optsC_def scenarioA_defs big_gap_ref_def cround_def)
qed simp

theorem big_gap_scan_refines_witness:
  "length [1000, 850, 700 :: real] \<le> length [250, 200, 250 :: real] \<and>
   big_gap_scan 30000 [1000, 850, 700] [250, 200, 250] 860 = Some 20000"
  using big_gap_scan_refines [of "[1000, 850, 700 :: real]" "[250, 200, 250]" 30000 860]
  by (simp add: big_gap_ref_def)

theorem big_gap_scan_greatest_band_witness:
  "sorted_wrt (>) (StandardLevels optsA) \<and> length (StandardLevels optsA) \<le> length (BigGaps optsA) \<and>
   (\<exists>s\<in>set (StandardLevels optsA). s \<le> of_int 150) \<and>
   (\<exists>i<length (StandardLevels optsA).
      big_gap_scan 25000 (StandardLevels optsA) (BigGaps optsA) 150 = Some (BigGaps optsA ! i * 100) \<and>
      StandardLevels optsA ! i = Max {s \<in> set (StandardLevels optsA). s \<le> of_int 150})"
proof -
  have h: "sorted_wrt (>) (StandardLevels optsA)" "length (StandardLevels optsA) \<le> length (BigGaps optsA)"
    "\<exists>s\<in>set (StandardLevels optsA). s \<le> of_int 150"
    by (simp_all add: optsA_def)
  show ?thesis using h big_gap_scan_greatest_band [OF h] by blast
qed


end
